theory Spec2Isabelle
  imports Complex_Main "HOL-Library.Multiset"
begin

section \<open>JavaScript values\<close>

text \<open>
  The values that reach the page from the JSON APIs and from the two lookup tables.
  \<open>JObject\<close> stands for any object or function (always truthy, \<open>NaN\<close> as a number).
  Numbers are rationals; \<open>NaN\<close> and the infinities cannot arrive through JSON.
\<close>

datatype jsval =
    JUndefined
  | JNull
  | JBool bool
  | JNum rat
  | JStr string
  | JObject

text \<open>ToBoolean.\<close>

fun truthy :: "jsval \<Rightarrow> bool" where
  "truthy JUndefined = False"
| "truthy JNull = False"
| "truthy (JBool b) = b"
| "truthy (JNum r) = (r \<noteq> 0)"
| "truthy (JStr s) = (s \<noteq> [])"
| "truthy JObject = True"

text \<open>\<open>a || b\<close> and \<open>a && b\<close> return one of their operands.\<close>

definition js_or :: "jsval \<Rightarrow> jsval \<Rightarrow> jsval" where
  "js_or a b = (if truthy a then a else b)"

definition js_and :: "jsval \<Rightarrow> jsval \<Rightarrow> jsval" where
  "js_and a b = (if truthy a then b else a)"

text \<open>
  ToNumber, with \<open>None\<close> for \<open>NaN\<close>. Of the strings only the empty one and plain
  decimal digit strings are read as numbers; every other string (such as \<open>N/A\<close>) is
  \<open>NaN\<close>. No signed, fractional or exponent literal reaches a comparison in this page.
\<close>

definition digits :: string where
  "digits = ''0123456789''"

definition is_digit :: "char \<Rightarrow> bool" where
  "is_digit c = (c \<in> set digits)"

definition digit_val :: "char \<Rightarrow> nat" where
  "digit_val c = length (takeWhile (\<lambda>d. d \<noteq> c) digits)"

definition string_to_number :: "string \<Rightarrow> rat option" where
  "string_to_number s =
     (if s = [] then Some 0
      else if list_all is_digit s
        then Some (of_nat (foldl (\<lambda>acc c. 10 * acc + digit_val c) 0 s))
      else None)"

fun to_number :: "jsval \<Rightarrow> rat option" where
  "to_number JUndefined = None"
| "to_number JNull = Some 0"
| "to_number (JBool b) = Some (if b then 1 else 0)"
| "to_number (JNum r) = Some r"
| "to_number (JStr s) = string_to_number s"
| "to_number JObject = None"

text \<open>\<open>v >= k\<close> for a numeric literal \<open>k\<close>: false as soon as \<open>v\<close> is \<open>NaN\<close>.\<close>

definition js_ge :: "jsval \<Rightarrow> rat \<Rightarrow> bool" where
  "js_ge v k = (case to_number v of None \<Rightarrow> False | Some r \<Rightarrow> k \<le> r)"

text \<open>
  \<open>x || d\<close> where \<open>x\<close> is a string field that may be absent (\<open>None\<close>) and \<open>d\<close> a
  string literal.
\<close>

definition str_or :: "string option \<Rightarrow> string \<Rightarrow> string" where
  "str_or x d = (case x of None \<Rightarrow> d | Some s \<Rightarrow> (if s \<noteq> [] then s else d))"

subsection \<open>Property lookup on an object literal\<close>

text \<open>
  \<open>obj[key]\<close> on an object literal finds the own property first and then the
  properties every object inherits from \<open>Object.prototype\<close>, which are functions
  (an object for \<open>__proto__\<close>); anything else is \<open>undefined\<close>.
\<close>

definition object_prototype_keys :: "string list" where
  "object_prototype_keys =
     [''constructor'', ''toString'', ''toLocaleString'', ''valueOf'', ''hasOwnProperty'',
      ''isPrototypeOf'', ''propertyIsEnumerable'', ''__proto__'', ''__defineGetter__'',
      ''__defineSetter__'', ''__lookupGetter__'', ''__lookupSetter__'']"

definition obj_get :: "(string \<times> jsval) list \<Rightarrow> string \<Rightarrow> jsval" where
  "obj_get obj key =
     (case map_of obj key of
        Some v \<Rightarrow> v
      | None \<Rightarrow> (if key \<in> set object_prototype_keys then JObject else JUndefined))"

section \<open>Reference data\<close>

definition DISEASE_SEVERITY_INDEX :: "(string \<times> jsval) list" where
  "DISEASE_SEVERITY_INDEX =
     [(''Healthy'', JNum 0),
      (''Sooty Mould'', JNum 1),
      (''Powdery Mildew'', JNum 2),
      (''Gall Midge'', JNum 2),
      (''Anthracnose'', JNum 3),
      (''Bacterial Canker'', JNum 3),
      (''Cutting Weevil'', JNum 3),
      (''die back'', JNum 3)]"

definition DISEASE_COLOR_MAP :: "(string \<times> jsval) list" where
  "DISEASE_COLOR_MAP =
     [(''Anthracnose'', JStr ''#f0ad4e''),
      (''Bacterial Canker'', JStr ''#337ab7''),
      (''Cutting Weevil'', JStr ''#9966FF''),
      (''die back'', JStr ''#dc3545''),
      (''Gall Midge'', JStr ''#ffc107''),
      (''Powdery Mildew'', JStr ''#20c997''),
      (''Sooty Mould'', JStr ''#6c757d'')]"

section \<open>Numbers as text\<close>

text \<open>Decimal digits of a non-negative integer, as a template literal prints it.\<close>

fun show_nat :: "nat \<Rightarrow> string" where
  "show_nat n =
     (if n < 10 then [digits ! n]
      else show_nat (n div 10) @ [digits ! (n mod 10)])"

declare show_nat.simps [simp del]

text \<open>
  A distribution is the object \<open>regional_data\<close>: disease name to the number of affected
  trees, as the list \<open>Object.entries\<close> enumerates it (keys are distinct). Counts are
  non-negative integers, which JavaScript adds and subtracts exactly below \<open>2^53\<close>.
\<close>

type_synonym distribution = "(string \<times> nat) list"

text \<open>\<open>rawCounts.reduce((sum, count) => sum + count, 0)\<close>\<close>

definition totalTrees_of :: "nat list \<Rightarrow> nat" where
  "totalTrees_of rawCounts = foldl (\<lambda>sum count. sum + count) 0 rawCounts"

section \<open>Double-precision arithmetic of the percentage\<close>

text \<open>
  \<open>(count / totalTrees) * 100\<close> is computed in IEEE-754 double precision: the quotient
  is rounded to the nearest double (53 significant bits, ties to even) and so is the
  product. A non-negative double is kept as a pair \<open>(m, e)\<close> that stands for
  \<open>m * 2^e\<close>. Overflow and subnormal numbers are out of reach: the quotient of two
  counts below \<open>2^53\<close> lies between \<open>2^-53\<close> and \<open>1\<close>.
\<close>

type_synonym double = "nat \<times> int"

definition dval :: "double \<Rightarrow> rat" where
  "dval x = of_nat (fst x) * 2 powi (snd x)"

text \<open>Number of binary digits of \<open>n\<close>.\<close>

fun bit_length :: "nat \<Rightarrow> nat" where
  "bit_length n = (if n = 0 then 0 else Suc (bit_length (n div 2)))"

declare bit_length.simps [simp del]

text \<open>The integer nearest to \<open>n / d\<close>, the even one of two equally near.\<close>

definition round_ties_even :: "nat \<Rightarrow> nat \<Rightarrow> nat" where
  "round_ties_even n d =
     (let q = n div d; r = n mod d
      in if 2 * r < d then q
         else if d < 2 * r then q + 1
         else if even q then q else q + 1)"

text \<open>\<open>\<lfloor>log\<^sub>2 (n / d)\<rfloor>\<close> for positive \<open>n\<close> and \<open>d\<close>.\<close>

definition binade :: "nat \<Rightarrow> nat \<Rightarrow> int" where
  "binade n d =
     (let e0 = int (bit_length n) - int (bit_length d)
      in if d * 2 ^ nat e0 \<le> n * 2 ^ nat (- e0) then e0 else e0 - 1)"

text \<open>The double nearest to the exact fraction \<open>n / d\<close>.\<close>

definition to_double :: "nat \<Rightarrow> nat \<Rightarrow> double" where
  "to_double n d =
     (if n = 0 then (0, 0)
      else let s = 52 - binade n d
           in (round_ties_even (n * 2 ^ nat s) (d * 2 ^ nat (- s)), - s))"

text \<open>\<open>a / b\<close> for two integers that doubles hold exactly.\<close>

definition js_div :: "nat \<Rightarrow> nat \<Rightarrow> double" where
  "js_div a b = to_double a b"

text \<open>\<open>x * k\<close> for a double \<open>x\<close> and an integer literal \<open>k\<close>.\<close>

definition js_mul :: "double \<Rightarrow> nat \<Rightarrow> double" where
  "js_mul x k = to_double (fst x * k * 2 ^ nat (snd x)) (2 ^ nat (- snd x))"

text \<open>
  \<open>x.toFixed(1)\<close>: the integer \<open>n\<close> for which \<open>n / 10 - x\<close> is as close to zero as
  possible, the larger one of two such \<open>n\<close>, printed with one digit after the point.
\<close>

definition toFixed1_tenths :: "double \<Rightarrow> nat" where
  "toFixed1_tenths x =
     (fst x * 20 * 2 ^ nat (snd x) + 2 ^ nat (- snd x)) div (2 * 2 ^ nat (- snd x))"

definition one_decimal :: "nat \<Rightarrow> string" where
  "one_decimal n = show_nat (n div 10) @ ''.'' @ show_nat (n mod 10)"

definition toFixed1 :: "double \<Rightarrow> string" where
  "toFixed1 x = one_decimal (toFixed1_tenths x)"

text \<open>
  \<open>total > 0 ? ((count / total) * 100).toFixed(1) + '%' : '0%'\<close>, the expression
  shared by the chart tooltip and the summary table.
\<close>

definition percentage_tenths :: "nat \<Rightarrow> nat \<Rightarrow> nat" where
  "percentage_tenths rawCount totalTrees = toFixed1_tenths (js_mul (js_div rawCount totalTrees) 100)"

definition percentage_text :: "nat \<Rightarrow> nat \<Rightarrow> string" where
  "percentage_text rawCount totalTrees =
     (if totalTrees > 0 then toFixed1 (js_mul (js_div rawCount totalTrees) 100) @ ''%''
      else ''0%'')"

section \<open>Sorting an array\<close>

text \<open>
  \<open>Array.prototype.sort(cmp)\<close> is a stable sort: \<open>a\<close> stays before \<open>b\<close> unless
  \<open>cmp(a, b) > 0\<close>. For a comparator that orders by a number the result is determined,
  and insertion from the right computes it.
\<close>

fun insert_by :: "('a \<Rightarrow> 'a \<Rightarrow> int) \<Rightarrow> 'a \<Rightarrow> 'a list \<Rightarrow> 'a list" where
  "insert_by cmp a [] = [a]"
| "insert_by cmp a (b # bs) =
     (if cmp a b \<le> 0 then a # b # bs else b # insert_by cmp a bs)"

fun array_sort :: "('a \<Rightarrow> 'a \<Rightarrow> int) \<Rightarrow> 'a list \<Rightarrow> 'a list" where
  "array_sort cmp [] = []"
| "array_sort cmp (a # as) = insert_by cmp a (array_sort cmp as)"

section \<open>The summary table\<close>

record summary_row =
  row_disease :: string
  row_count :: nat
  row_percentage :: string
  row_severityColor :: string
  row_severity :: jsval

text \<open>The table that \<open>renderSummaryTable\<close> writes: the sorted rows and the TOTAL row.\<close>

record summary_table =
  table_rows :: "summary_row list"
  total_cell :: nat
  total_percentage :: string
  total_severity :: string

text \<open>The comparator \<open>([, countA], [, countB]) => countB - countA\<close>.\<close>

definition by_count_desc :: "string \<times> nat \<Rightarrow> string \<times> nat \<Rightarrow> int" where
  "by_count_desc a b = int (snd b) - int (snd a)"

definition sortedEntries :: "distribution \<Rightarrow> distribution" where
  "sortedEntries distributionData = array_sort by_count_desc distributionData"

text \<open>\<open>DISEASE_SEVERITY_INDEX[disease] || 'N/A'\<close>\<close>

definition severity_of :: "string \<Rightarrow> jsval" where
  "severity_of disease = js_or (obj_get DISEASE_SEVERITY_INDEX disease) (JStr ''N/A'')"

text \<open>\<open>severity >= 3 ? 'red' : severity >= 2 ? 'orange' : 'green'\<close>\<close>

definition severityColor_of :: "jsval \<Rightarrow> string" where
  "severityColor_of severity =
     (if js_ge severity 3 then ''red'' else if js_ge severity 2 then ''orange'' else ''green'')"

text \<open>The body of \<open>sortedEntries.forEach\<close>: one table row.\<close>

definition summary_row_of :: "nat \<Rightarrow> string \<times> nat \<Rightarrow> summary_row" where
  "summary_row_of totalTrees entry =
     (let disease = fst entry;
          rawCount = snd entry;
          percentage = percentage_text rawCount totalTrees;
          severity = severity_of disease;
          severityColor = severityColor_of severity
      in \<lparr>row_disease = disease, row_count = rawCount, row_percentage = percentage,
          row_severityColor = severityColor, row_severity = severity\<rparr>)"

definition summary_table_of :: "distribution \<Rightarrow> summary_table" where
  "summary_table_of distributionData =
     (let rawCounts = map snd distributionData;
          totalTrees = totalTrees_of rawCounts
      in \<lparr>table_rows = map (summary_row_of totalTrees) (sortedEntries distributionData),
          total_cell = totalTrees,
          total_percentage = ''100.0%'',
          total_severity = ''-''\<rparr>)"

section \<open>The chart\<close>

text \<open>The configuration handed to \<open>new Chart\<close>.\<close>

record chart_config =
  chart_labels :: "string list"
  chart_data :: "nat list"
  chart_backgroundColor :: "jsval list"
  chart_title :: string

definition chart_config_of :: "distribution \<Rightarrow> chart_config" where
  "chart_config_of distributionData =
     (let labels = map fst distributionData;
          rawCounts = map snd distributionData;
          totalTrees = totalTrees_of rawCounts;
          colors = map (\<lambda>label. js_or (obj_get DISEASE_COLOR_MAP label) (JStr ''#cccccc'')) labels
      in \<lparr>chart_labels = labels, chart_data = rawCounts, chart_backgroundColor = colors,
          chart_title = ''Regional Disease Distribution (Total Affected Trees: ''
                          @ show_nat totalTrees @ '')''\<rparr>)"

text \<open>
  The tooltip callback, from \<open>context.label\<close>, \<open>context.raw\<close> and
  \<open>context.dataset.data\<close>.
\<close>

definition tooltip_label :: "string \<Rightarrow> nat \<Rightarrow> nat list \<Rightarrow> string" where
  "tooltip_label label rawCount data =
     (let total = foldl (\<lambda>a b. a + b) 0 data;
          percentage = percentage_text rawCount total
      in str_or (Some label) [] @ '': '' @ percentage @ '' ('' @ show_nat rawCount
           @ '' affected tree'' @ (if rawCount \<noteq> 1 then ''s'' else []) @ '')'')"

section \<open>Data from the collaborating APIs\<close>

text \<open>
  An awaited API call either rejects (network or parse failure, with the message of the
  error) or resolves with a value.
\<close>

datatype 'a api_outcome = Rejected string | Resolved 'a

record farm =
  farm_name :: string
  latitude :: jsval
  longitude :: jsval

record disease_entry =
  disease_name :: string
  organic_treatment :: "string option"
  chemical_treatment :: "string option"

record top_treatment =
  threat_name :: string
  threat_count :: nat
  threat_organic :: "string option"
  threat_chemical :: "string option"

text \<open>The statistics response; a field that is missing or \<open>null\<close> is \<open>None\<close>.\<close>

record stats_response =
  regional_data :: "distribution option"
  top_treatments :: "top_treatment list option"
  message :: "string option"

section \<open>The page\<close>

text \<open>Which of the elements that the code looks up and tests for are in the document.\<close>

record dom =
  has_canvas :: bool
  has_summary :: bool
  has_treatment :: bool
  has_guide :: bool

datatype select_option = Placeholder string | FarmOption farm

record guide_row =
  guide_name :: string
  guide_organic :: string
  guide_chemical :: string

datatype guide_view = GuideStatic | GuideLoading | GuideTable "guide_row list" | GuideFailed

record treatment_card =
  card_rank :: nat
  card_name :: string
  card_count :: nat
  card_plural :: string
  card_border :: jsval
  card_organic :: string
  card_chemical :: string

text \<open>
  The two globals of the script (\<open>regionalChartInstance\<close>, \<open>savedFarms\<close>), the
  Chart objects constructed so far (a handle is a position in \<open>chart_objects\<close>) with
  the set of those not destroyed, and what the page shows. An \<open>innerHTML\<close> that was
  set to the empty string is \<open>None\<close>.
\<close>

record page =
  regionalChartInstance :: "nat option"
  savedFarms :: "farm list"
  chart_objects :: "chart_config list"
  live_charts :: "nat set"
  chartMessage :: string
  regionalDataSummary :: "summary_table option"
  treatmentSummary :: "treatment_card list option"
  allDiseasesTreatment :: guide_view
  displayed :: "(string \<times> bool) list"
  requests :: "string list"
  farmSelect_options :: "select_option list"
  farmSelect_disabled :: bool
  farmSelect_listening :: bool
  reportLatitude :: string
  reportLongitude :: string
  generate_disabled :: bool
  generate_text :: string

text \<open>\<open>displayMessage(text, isError)\<close>\<close>

definition displayMessage :: "string \<Rightarrow> bool \<Rightarrow> page \<Rightarrow> page" where
  "displayMessage txt isError s = s\<lparr>displayed := displayed s @ [(txt, isError)]\<rparr>"

text \<open>\<open>apiCall(endpoint, 'GET')\<close> sends one request.\<close>

definition apiCall :: "string \<Rightarrow> page \<Rightarrow> page" where
  "apiCall endpoint s = s\<lparr>requests := requests s @ [endpoint]\<rparr>"

subsection \<open>Saved farm locations\<close>

definition loadFarmLocations :: "farm list api_outcome \<Rightarrow> page \<Rightarrow> page" where
  "loadFarmLocations outcome s =
     (case outcome of
        Resolved farms \<Rightarrow>
          (let s1 = s\<lparr>savedFarms := filter (\<lambda>f. truthy (js_and (latitude f) (longitude f))) farms\<rparr>
           in if length (savedFarms s1) = 0
              then s1\<lparr>farmSelect_options := [Placeholder ''-- No Geo-tagged Farms Found --''],
                      farmSelect_disabled := True\<rparr>
              else s1\<lparr>farmSelect_options := farmSelect_options s1 @ map FarmOption (savedFarms s1),
                      farmSelect_listening := True\<rparr>)
      | Rejected err \<Rightarrow>
          s\<lparr>farmSelect_options := [Placeholder ''-- Error Loading Farms --''],
            farmSelect_disabled := True\<rparr>)"

subsection \<open>The static treatment guide\<close>

definition guide_row_of :: "disease_entry \<Rightarrow> guide_row" where
  "guide_row_of disease =
     \<lparr>guide_name = disease_name disease,
      guide_organic =
        str_or (organic_treatment disease) ''No specific organic treatment recorded.'',
      guide_chemical =
        str_or (chemical_treatment disease) ''No specific chemical treatment recorded.''\<rparr>"

fun guide_rows :: "disease_entry list \<Rightarrow> guide_row list" where
  "guide_rows [] = []"
| "guide_rows (disease # rest) =
     (if disease_name disease = ''Healthy'' then guide_rows rest
      else guide_row_of disease # guide_rows rest)"

definition loadAllTreatments :: "dom \<Rightarrow> disease_entry list api_outcome \<Rightarrow> page \<Rightarrow> page" where
  "loadAllTreatments d outcome s =
     (if \<not> has_guide d then s
      else let s1 = apiCall ''/api/user/diseases'' (s\<lparr>allDiseasesTreatment := GuideLoading\<rparr>)
           in case outcome of
                Resolved diseases \<Rightarrow> s1\<lparr>allDiseasesTreatment := GuideTable (guide_rows diseases)\<rparr>
              | Rejected err \<Rightarrow> s1\<lparr>allDiseasesTreatment := GuideFailed\<rparr>)"

subsection \<open>The report renderers\<close>

text \<open>
  \<open>if (regionalChartInstance) regionalChartInstance.destroy()\<close>: the object is
  destroyed, the global keeps pointing to it.
\<close>

definition destroy_chart :: "page \<Rightarrow> page" where
  "destroy_chart s =
     (case regionalChartInstance s of
        None \<Rightarrow> s
      | Some h \<Rightarrow> s\<lparr>live_charts := live_charts s - {h}\<rparr>)"

text \<open>\<open>regionalChartInstance = new Chart(ctx, config)\<close>\<close>

definition new_chart :: "chart_config \<Rightarrow> page \<Rightarrow> page" where
  "new_chart config s =
     s\<lparr>regionalChartInstance := Some (length (chart_objects s)),
       chart_objects := chart_objects s @ [config],
       live_charts := insert (length (chart_objects s)) (live_charts s)\<rparr>"

definition renderRegionalChart :: "dom \<Rightarrow> distribution \<Rightarrow> page \<Rightarrow> page" where
  "renderRegionalChart d distributionData s =
     (if \<not> has_canvas d then s
      else new_chart (chart_config_of distributionData) (destroy_chart s))"

definition renderSummaryTable :: "dom \<Rightarrow> distribution \<Rightarrow> page \<Rightarrow> page" where
  "renderSummaryTable d distributionData s =
     (if \<not> has_summary d then s
      else s\<lparr>regionalDataSummary := Some (summary_table_of distributionData)\<rparr>)"

definition treatment_card_of :: "nat \<Rightarrow> top_treatment \<Rightarrow> treatment_card" where
  "treatment_card_of index threat =
     \<lparr>card_rank = index + 1,
      card_name = threat_name threat,
      card_count = threat_count threat,
      card_plural = (if threat_count threat \<noteq> 1 then ''s'' else []),
      card_border = js_or (obj_get DISEASE_COLOR_MAP (threat_name threat)) (JStr ''#333''),
      card_organic = str_or (threat_organic threat) ''No specific organic treatment recorded.'',
      card_chemical =
        str_or (threat_chemical threat) ''No specific chemical treatment recorded.''\<rparr>"

definition treatment_cards :: "top_treatment list \<Rightarrow> treatment_card list" where
  "treatment_cards topTreatments =
     map (\<lambda>(index, threat). treatment_card_of index threat)
       (zip [0 ..< length topTreatments] topTreatments)"

definition renderTopTreatments :: "dom \<Rightarrow> top_treatment list \<Rightarrow> page \<Rightarrow> page" where
  "renderTopTreatments d topTreatments s =
     (if \<not> has_treatment d then s
      else if length topTreatments = 0 then s\<lparr>treatmentSummary := None\<rparr>
      else s\<lparr>treatmentSummary := Some (treatment_cards topTreatments)\<rparr>)"

subsection \<open>Fetching and rendering the regional report\<close>

text \<open>
  \<open>loadRegionalStatistics\<close> with the outcome of its awaited call as an argument. The
  \<open>catch\<close> branch is the one of a rejected call: on a response of the type above the
  renderers do not throw, and \<open>new Chart\<close> is taken to succeed. A handler runs to its
  end before the next one starts (the button is disabled while the call is awaited).
\<close>

definition stats_endpoint :: "string \<Rightarrow> string \<Rightarrow> string" where
  "stats_endpoint lat lon =
     ''/api/user/regional-stats?latitude='' @ lat @ ''&longitude='' @ lon"

definition loadRegionalStatistics ::
  "dom \<Rightarrow> string \<Rightarrow> string \<Rightarrow> stats_response api_outcome \<Rightarrow> page \<Rightarrow> page" where
  "loadRegionalStatistics d lat lon outcome s =
     (let s1 = s\<lparr>chartMessage := ''Fetching data from surrounding 5km...''\<rparr>;
          s2 = (if has_summary d then s1\<lparr>regionalDataSummary := None\<rparr> else s1);
          s3 = (if has_treatment d then s2\<lparr>treatmentSummary := None\<rparr> else s2);
          s4 = apiCall (stats_endpoint lat lon) s3
      in case outcome of
           Resolved response \<Rightarrow>
             (let regionalData = (case regional_data response of Some r \<Rightarrow> r | None \<Rightarrow> []);
                  topTreatments = (case top_treatments response of Some t \<Rightarrow> t | None \<Rightarrow> [])
              in if length regionalData = 0
                 then destroy_chart
                        (s4\<lparr>chartMessage :=
                              str_or (message response)
                                ''No active diseased trees found within 5km.''\<rparr>)
                 else displayMessage ''Regional disease risk assessment loaded successfully.'' False
                        (renderTopTreatments d topTreatments
                          (renderSummaryTable d regionalData
                            (renderRegionalChart d regionalData s4))))
         | Rejected err \<Rightarrow>
             destroy_chart
               (displayMessage (str_or (Some err) ''Failed to load regional data.'') True
                 (s4\<lparr>chartMessage := ''Failed to load regional data: '' @ err\<rparr>)))"

subsection \<open>The Generate Report button\<close>

definition generate_click :: "dom \<Rightarrow> stats_response api_outcome \<Rightarrow> page \<Rightarrow> page" where
  "generate_click d outcome s =
     (let lat = reportLatitude s;
          lon = reportLongitude s
      in if \<not> truthy (JStr lat) \<or> \<not> truthy (JStr lon)
         then displayMessage ''Please enter or detect both Latitude and Longitude.'' True s
         else let s1 = s\<lparr>generate_disabled := True, generate_text := ''Analyzing...''\<rparr>;
                  s2 = loadRegionalStatistics d lat lon outcome s1
              in s2\<lparr>generate_disabled := False, generate_text := ''Generate Report''\<rparr>)"

subsection \<open>States of the page\<close>

text \<open>
  The page when the script has been evaluated: both globals at their initial values, no
  Chart object, nothing requested or shown.
\<close>

definition fresh_page :: page where
  "fresh_page =
     \<lparr>regionalChartInstance = None, savedFarms = [], chart_objects = [], live_charts = {},
      chartMessage = [], regionalDataSummary = None, treatmentSummary = None,
      allDiseasesTreatment = GuideStatic, displayed = [], requests = [],
      farmSelect_options = [], farmSelect_disabled = False, farmSelect_listening = False,
      reportLatitude = [], reportLongitude = [],
      generate_disabled = False, generate_text = ''Generate Report''\<rparr>"

definition full_dom :: dom where
  "full_dom = \<lparr>has_canvas = True, has_summary = True, has_treatment = True, has_guide = True\<rparr>"

text \<open>
  The states the page can be in: the script starts, the two loaders of the load handler
  finish, the user edits the coordinate fields, the user clicks Generate Report.
\<close>

inductive reachable :: "dom \<Rightarrow> page \<Rightarrow> bool" for d :: dom where
  start: "reachable d fresh_page"
| farms_loaded: "reachable d s \<Longrightarrow> reachable d (loadFarmLocations farms s)"
| guide_loaded: "reachable d s \<Longrightarrow> reachable d (loadAllTreatments d diseases s)"
| coordinates_edited:
    "reachable d s \<Longrightarrow> reachable d (s\<lparr>reportLatitude := lat, reportLongitude := lon\<rparr>)"
| report_generated: "reachable d s \<Longrightarrow> reachable d (generate_click d outcome s)"

text \<open>Every live Chart object is the one the global points to.\<close>

definition chart_inv :: "page \<Rightarrow> bool" where
  "chart_inv s = (live_charts s \<subseteq> set_option (regionalChartInstance s))"

subsection \<open>Sample data\<close>

definition sample_entry :: disease_entry where
  "sample_entry = \<lparr>disease_name = ''Anthracnose'', organic_treatment = Some [],
                    chemical_treatment = None\<rparr>"

definition sample_threat :: top_treatment where
  "sample_threat = \<lparr>threat_name = ''Anthracnose'', threat_count = 4, threat_organic = None,
                     threat_chemical = Some []\<rparr>"

definition sample_response :: stats_response where
  "sample_response =
     \<lparr>regional_data = Some [(''Anthracnose'', 4), (''Gall Midge'', 2), (''Sooty Mould'', 1)],
      top_treatments = Some [sample_threat],
      message = None\<rparr>"

definition all_zero_response :: stats_response where
  "all_zero_response =
     \<lparr>regional_data = Some [(''Anthracnose'', 0)], top_treatments = None, message = None\<rparr>"

definition empty_message_response :: stats_response where
  "empty_message_response =
     \<lparr>regional_data = Some [], top_treatments = None, message = Some []\<rparr>"

definition nothing_nearby_response :: stats_response where
  "nothing_nearby_response =
     \<lparr>regional_data = None, top_treatments = None, message = Some ''No trees nearby.''\<rparr>"

text \<open>The page with the coordinate fields filled in, and after a first report.\<close>

definition located_page :: page where
  "located_page = fresh_page\<lparr>reportLatitude := ''12.97'', reportLongitude := ''77.59''\<rparr>"

definition reported_page :: page where
  "reported_page = generate_click full_dom (Resolved sample_response) located_page"

text \<open>Three equal counts, and two counts whose percentages are exact ties.\<close>

definition thirds :: distribution where
  "thirds = [(''Anthracnose'', 1), (''Gall Midge'', 1), (''Sooty Mould'', 1)]"

definition tie_distribution :: distribution where
  "tie_distribution = [(''Anthracnose'', 23), (''Gall Midge'', 57)]"

definition healthy_entry :: disease_entry where
  "healthy_entry = \<lparr>disease_name = ''Healthy'', organic_treatment = None,
                     chemical_treatment = None\<rparr>"

section \<open>Properties\<close>

subsection \<open>Helper facts\<close>


lemmas flow_defs = loadRegionalStatistics_def destroy_chart_def displayMessage_def apiCall_def
  renderTopTreatments_def renderSummaryTable_def renderRegionalChart_def new_chart_def Let_def




lemma set_insert_by: "set (insert_by cmp a bs) = insert a (set bs)"
  by (induction bs) auto

lemma mset_insert_by: "mset (insert_by cmp a bs) = add_mset a (mset bs)"
  by (induction bs) auto

lemma mset_array_sort: "mset (array_sort cmp xs) = mset xs"
  by (induction xs) (simp_all add: mset_insert_by)

lemma desc_insert_by:
  "sorted_wrt (\<lambda>a b. snd b \<le> (snd a :: nat)) bs \<Longrightarrow>
   sorted_wrt (\<lambda>a b. snd b \<le> snd a) (insert_by by_count_desc a bs)"
  by (induction bs) (auto simp: set_insert_by by_count_desc_def)

lemma desc_array_sort:
  "sorted_wrt (\<lambda>a b. snd b \<le> (snd a :: nat)) (array_sort by_count_desc xs)"
  by (induction xs) (simp_all add: desc_insert_by)

lemma row_entry: "(row_disease (summary_row_of t e), row_count (summary_row_of t e)) = e"
  by (simp add: summary_row_of_def Let_def)

lemma str_or_falsy: "x = None \<or> x = Some [] \<Longrightarrow> str_or x d = d"
  by (auto simp: str_or_def)

lemma str_or_truthy: "t \<noteq> [] \<Longrightarrow> str_or (Some t) d = t"
  by (simp add: str_or_def)

lemma treatment_cards_Cons:
  "treatment_cards (t # ts)
     = treatment_card_of 0 t
         # map (\<lambda>(i, x). treatment_card_of i x) (zip [Suc 0 ..< Suc (length ts)] ts)"
  by (simp add: treatment_cards_def upt_conv_Cons del: upt_Suc)

lemma requests_loadRegionalStatistics:
  "requests (loadRegionalStatistics d lat lon outcome s) = requests s @ [stats_endpoint lat lon]"
  by (simp add: flow_defs split: api_outcome.splits option.splits)

subsection \<open>Severity shown in the summary table\<close>

text \<open>
  C1. Each row of the summary table is meant to show the integer severity rank of every
  disease the Severity Index maps, \<open>Healthy\<close> with its rank 0 included, and \<open>N/A\<close>
  only for a disease the index does not map. The code evaluates
  \<open>DISEASE_SEVERITY_INDEX[disease] || 'N/A'\<close>, and rank 0 is falsy: for the distribution
  \<open>{Anthracnose: 4, Healthy: 3}\<close> the index holds 0 for \<open>Healthy\<close>, yet its row shows
  \<open>N/A\<close>, while the row of \<open>Anthracnose\<close> shows its rank 3.
\<close>

theorem C1_healthy_shown_as_NA:
  "obj_get DISEASE_SEVERITY_INDEX ''Healthy'' = JNum 0 \<and>
   map row_severity (table_rows (summary_table_of [(''Anthracnose'', 4), (''Healthy'', 3)]))
     = [JNum 3, JStr ''N/A'']"
  by (simp add: summary_table_of_def sortedEntries_def by_count_desc_def summary_row_of_def
      severity_of_def js_or_def obj_get_def DISEASE_SEVERITY_INDEX_def Let_def)

subsection \<open>Farms offered in the dropdown\<close>

text \<open>
  C2. A farm is meant to be offered in the dropdown exactly when it carries both a
  latitude and a longitude. The filter \<open>f.latitude && f.longitude\<close> tests truthiness, so
  a farm on the prime meridian, with latitude 5.6 and longitude 0, carries both
  coordinates and is still left out: no farm is saved, and the dropdown is disabled with
  the text for an account without geo-tagged farms.
\<close>

theorem C2_zero_longitude_farm_excluded:
  "savedFarms (loadFarmLocations
      (Resolved [\<lparr>farm_name = ''Meridian Orchard'', latitude = JNum (56 / 10),
                  longitude = JNum 0\<rparr>]) s) = []
   \<and> farmSelect_options (loadFarmLocations
      (Resolved [\<lparr>farm_name = ''Meridian Orchard'', latitude = JNum (56 / 10),
                  longitude = JNum 0\<rparr>]) s)
       = [Placeholder ''-- No Geo-tagged Farms Found --'']
   \<and> farmSelect_disabled (loadFarmLocations
      (Resolved [\<lparr>farm_name = ''Meridian Orchard'', latitude = JNum (56 / 10),
                  longitude = JNum 0\<rparr>]) s)"
  by (simp add: loadFarmLocations_def js_and_def Let_def)

subsection \<open>Validation of the coordinate fields\<close>

text \<open>
  C6. When the latitude field or the longitude field is empty at a click on Generate
  Report, the validation message is displayed as an error and no request is sent; when
  both fields are filled, one request goes to the statistics endpoint with these
  coordinates; a click sends a request only when both fields are non-empty.
\<close>

theorem C6_validation_before_request:
  "(reportLatitude s = [] \<or> reportLongitude s = [] \<longrightarrow>
      requests (generate_click d outcome s) = requests s
      \<and> displayed (generate_click d outcome s)
          = displayed s @ [(''Please enter or detect both Latitude and Longitude.'', True)])
   \<and> (reportLatitude s \<noteq> [] \<and> reportLongitude s \<noteq> [] \<longrightarrow>
      requests (generate_click d outcome s)
        = requests s @ [stats_endpoint (reportLatitude s) (reportLongitude s)])
   \<and> (requests (generate_click d outcome s) \<noteq> requests s \<longrightarrow>
      reportLatitude s \<noteq> [] \<and> reportLongitude s \<noteq> [])"
proof -
  have rejected: "generate_click d outcome s
            = displayMessage ''Please enter or detect both Latitude and Longitude.'' True s"
    if "reportLatitude s = [] \<or> reportLongitude s = []"
    using that by (auto simp: generate_click_def Let_def)
  have sent: "requests (generate_click d outcome s)
            = requests s @ [stats_endpoint (reportLatitude s) (reportLongitude s)]"
    if "reportLatitude s \<noteq> []" "reportLongitude s \<noteq> []"
    using that by (simp add: generate_click_def Let_def requests_loadRegionalStatistics)
  show ?thesis
    using rejected sent by (auto simp: displayMessage_def)
qed

theorem C6_validation_before_request_witness:
  "reportLongitude (fresh_page\<lparr>reportLatitude := ''12.97''\<rparr>) = []
   \<and> requests (generate_click full_dom (Rejected ''offline'')
        (fresh_page\<lparr>reportLatitude := ''12.97''\<rparr>)) = []
   \<and> displayed (generate_click full_dom (Rejected ''offline'')
        (fresh_page\<lparr>reportLatitude := ''12.97''\<rparr>))
       = [(''Please enter or detect both Latitude and Longitude.'', True)]
   \<and> requests (generate_click full_dom (Rejected ''offline'')
        (fresh_page\<lparr>reportLatitude := ''12.97'', reportLongitude := ''77.59''\<rparr>))
       = [''/api/user/regional-stats?latitude=12.97&longitude=77.59'']"
  using C6_validation_before_request
          [of "fresh_page\<lparr>reportLatitude := ''12.97''\<rparr>" full_dom "Rejected ''offline''"]
        C6_validation_before_request
          [of "fresh_page\<lparr>reportLatitude := ''12.97'', reportLongitude := ''77.59''\<rparr>"
              full_dom "Rejected ''offline''"]
  by (simp add: fresh_page_def stats_endpoint_def)

subsection \<open>Order of the summary rows\<close>

text \<open>
  C8. For every distribution the rows of the summary table are in descending order of
  the affected-tree count, and they are the entries of the distribution, each once; the
  distribution \<open>{A: 5, B: 12, C: 1}\<close> gives the rows B, A, C.
\<close>

theorem C8_rows_sorted_by_count_descending:
  "sorted_wrt (\<lambda>r1 r2. row_count r2 \<le> row_count r1) (table_rows (summary_table_of D))
   \<and> mset (map (\<lambda>r. (row_disease r, row_count r)) (table_rows (summary_table_of D))) = mset D
   \<and> map row_disease (table_rows (summary_table_of [(''A'', 5), (''B'', 12), (''C'', 1)]))
       = [''B'', ''A'', ''C'']"
proof (intro conjI)
  have "sorted_wrt (\<lambda>a b. snd b \<le> snd a) (sortedEntries D)"
    unfolding sortedEntries_def by (rule desc_array_sort)
  then show "sorted_wrt (\<lambda>r1 r2. row_count r2 \<le> row_count r1)
               (table_rows (summary_table_of D))"
    by (simp add: summary_table_of_def Let_def sorted_wrt_map summary_row_of_def)
  have "map (\<lambda>r. (row_disease r, row_count r)) (table_rows (summary_table_of D))
          = sortedEntries D"
    by (simp add: summary_table_of_def Let_def o_def row_entry)
  then show "mset (map (\<lambda>r. (row_disease r, row_count r)) (table_rows (summary_table_of D)))
               = mset D"
    by (simp add: sortedEntries_def mset_array_sort)
  show "map row_disease (table_rows (summary_table_of [(''A'', 5), (''B'', 12), (''C'', 1)]))
       = [''B'', ''A'', ''C'']"
    by (simp add: summary_table_of_def sortedEntries_def by_count_desc_def summary_row_of_def
        Let_def)
qed

subsection \<open>Color of the severity cell\<close>



subsection \<open>Helper facts on the report flow\<close>

lemma foldl_add_sum_list: "foldl (\<lambda>a b. a + b) a xs = a + sum_list (xs :: nat list)"
  by (induction xs arbitrary: a) simp_all

lemma totalTrees_of_sum_list: "totalTrees_of xs = sum_list xs"
  by (simp add: totalTrees_of_def foldl_add_sum_list)

text \<open>The empty-result branch, for a response without entries.\<close>

lemma empty_result_state:
  assumes "regional_data response = None \<or> regional_data response = Some []"
  shows "loadRegionalStatistics d lat lon (Resolved response) s
     = destroy_chart
         (apiCall (stats_endpoint lat lon)
            (s\<lparr>chartMessage := ''Fetching data from surrounding 5km...'',
               regionalDataSummary := (if has_summary d then None else regionalDataSummary s),
               treatmentSummary := (if has_treatment d then None else treatmentSummary s)\<rparr>)
          \<lparr>chartMessage := str_or (message response) ''No active diseased trees found within 5km.''\<rparr>)"
  using assms by (auto simp: loadRegionalStatistics_def Let_def apiCall_def)

lemma rendered_state:
  assumes "regional_data response = Some D" "D \<noteq> []"
  shows "loadRegionalStatistics d lat lon (Resolved response) s
     = displayMessage ''Regional disease risk assessment loaded successfully.'' False
        (renderTopTreatments d (case top_treatments response of Some t \<Rightarrow> t | None \<Rightarrow> [])
          (renderSummaryTable d D
            (renderRegionalChart d D
              (apiCall (stats_endpoint lat lon)
                (s\<lparr>chartMessage := ''Fetching data from surrounding 5km...'',
                   regionalDataSummary := (if has_summary d then None else regionalDataSummary s),
                   treatmentSummary := (if has_treatment d then None else treatmentSummary s)\<rparr>)))))"
  using assms by (auto simp: loadRegionalStatistics_def Let_def apiCall_def)

lemma rejected_state:
  "loadRegionalStatistics d lat lon (Rejected err) s
     = destroy_chart
        (displayMessage (str_or (Some err) ''Failed to load regional data.'') True
          (apiCall (stats_endpoint lat lon)
            (s\<lparr>chartMessage := ''Fetching data from surrounding 5km...'',
               regionalDataSummary := (if has_summary d then None else regionalDataSummary s),
               treatmentSummary := (if has_treatment d then None else treatmentSummary s)\<rparr>)
           \<lparr>chartMessage := ''Failed to load regional data: '' @ err\<rparr>))"
  by (auto simp: loadRegionalStatistics_def Let_def apiCall_def)

lemma destroy_chart_fields:
  "live_charts (destroy_chart s) = live_charts s - set_option (regionalChartInstance s)"
  "regionalChartInstance (destroy_chart s) = regionalChartInstance s"
  "chart_objects (destroy_chart s) = chart_objects s"
  "chartMessage (destroy_chart s) = chartMessage s"
  "regionalDataSummary (destroy_chart s) = regionalDataSummary s"
  "treatmentSummary (destroy_chart s) = treatmentSummary s"
  "displayed (destroy_chart s) = displayed s"
  by (simp_all add: destroy_chart_def split: option.splits)

subsection \<open>The empty-result outcome\<close>

text \<open>
  C7 (as amended). For every response whose distribution is missing or has no entries,
  the status line shows the message of the server when that message is present and not
  the empty string, and the default \<open>No active diseased trees found within 5km.\<close>
  otherwise; the chart the global points to is destroyed, no Chart object is
  constructed, the summary table and the treatment cards stay cleared, and no message,
  in particular no error, is displayed.
\<close>

theorem C7_empty_result_outcome:
  "regional_data response = None \<or> regional_data response = Some [] \<longrightarrow>
     chartMessage (loadRegionalStatistics d lat lon (Resolved response) s)
       = (case message response of
            None \<Rightarrow> ''No active diseased trees found within 5km.''
          | Some m \<Rightarrow> if m \<noteq> [] then m else ''No active diseased trees found within 5km.'')
     \<and> live_charts (loadRegionalStatistics d lat lon (Resolved response) s)
         = live_charts s - set_option (regionalChartInstance s)
     \<and> chart_objects (loadRegionalStatistics d lat lon (Resolved response) s) = chart_objects s
     \<and> regionalChartInstance (loadRegionalStatistics d lat lon (Resolved response) s)
         = regionalChartInstance s
     \<and> regionalDataSummary (loadRegionalStatistics d lat lon (Resolved response) s)
         = (if has_summary d then None else regionalDataSummary s)
     \<and> treatmentSummary (loadRegionalStatistics d lat lon (Resolved response) s)
         = (if has_treatment d then None else treatmentSummary s)
     \<and> displayed (loadRegionalStatistics d lat lon (Resolved response) s) = displayed s"
proof
  assume "regional_data response = None \<or> regional_data response = Some []"
  note st = empty_result_state [OF this, of d lat lon s]
  show "chartMessage (loadRegionalStatistics d lat lon (Resolved response) s)
       = (case message response of
            None \<Rightarrow> ''No active diseased trees found within 5km.''
          | Some m \<Rightarrow> if m \<noteq> [] then m else ''No active diseased trees found within 5km.'')
     \<and> live_charts (loadRegionalStatistics d lat lon (Resolved response) s)
         = live_charts s - set_option (regionalChartInstance s)
     \<and> chart_objects (loadRegionalStatistics d lat lon (Resolved response) s) = chart_objects s
     \<and> regionalChartInstance (loadRegionalStatistics d lat lon (Resolved response) s)
         = regionalChartInstance s
     \<and> regionalDataSummary (loadRegionalStatistics d lat lon (Resolved response) s)
         = (if has_summary d then None else regionalDataSummary s)
     \<and> treatmentSummary (loadRegionalStatistics d lat lon (Resolved response) s)
         = (if has_treatment d then None else treatmentSummary s)
     \<and> displayed (loadRegionalStatistics d lat lon (Resolved response) s) = displayed s"
    unfolding st by (simp add: destroy_chart_fields apiCall_def str_or_def split: option.splits)
qed

theorem C7_empty_result_outcome_witness:
  "regional_data nothing_nearby_response = None
   \<and> chartMessage (loadRegionalStatistics full_dom ''12.97'' ''77.59''
        (Resolved nothing_nearby_response) reported_page) = ''No trees nearby.''
   \<and> live_charts reported_page = {0}
   \<and> live_charts (loadRegionalStatistics full_dom ''12.97'' ''77.59''
        (Resolved nothing_nearby_response) reported_page) = {}
   \<and> regionalDataSummary (loadRegionalStatistics full_dom ''12.97'' ''77.59''
        (Resolved nothing_nearby_response) reported_page) = None
   \<and> treatmentSummary (loadRegionalStatistics full_dom ''12.97'' ''77.59''
        (Resolved nothing_nearby_response) reported_page) = None"
proof -
  have absent: "regional_data nothing_nearby_response = None"
    and msg: "message nothing_nearby_response = Some ''No trees nearby.''"
    by (simp_all add: nothing_nearby_response_def)
  have before: "live_charts reported_page = {0}" "regionalChartInstance reported_page = Some 0"
    by (simp_all add: reported_page_def located_page_def fresh_page_def full_dom_def
        sample_response_def generate_click_def flow_defs)
  from C7_empty_result_outcome
         [of nothing_nearby_response full_dom "''12.97''" "''77.59''" reported_page]
       absent msg before
  show ?thesis by (simp add: full_dom_def)
qed

text \<open>
  C7 as stated promises the server-supplied message whenever one is present. A response
  whose message is the empty string has one, and the status line shows the default text.
\<close>

theorem C7_empty_message_counterexample:
  "regional_data empty_message_response = Some []
   \<and> message empty_message_response = Some []
   \<and> chartMessage (loadRegionalStatistics full_dom ''12.97'' ''77.59''
        (Resolved empty_message_response) fresh_page)
       = ''No active diseased trees found within 5km.''"
  by (simp add: empty_message_response_def flow_defs str_or_def fresh_page_def full_dom_def)

subsection \<open>A distribution whose counts are all zero\<close>

lemma percentage_text_zero_total: "percentage_text n 0 = ''0%''"
  by (simp add: percentage_text_def)

lemma all_zero_total: "\<forall>e \<in> set D. snd e = 0 \<Longrightarrow> totalTrees_of (map snd D) = 0"
  by (simp add: totalTrees_of_sum_list)

lemma rendered_fields:
  assumes "regional_data response = Some D" "D \<noteq> []"
  shows "chartMessage (loadRegionalStatistics d lat lon (Resolved response) s)
           = ''Fetching data from surrounding 5km...''"
    and "displayed (loadRegionalStatistics d lat lon (Resolved response) s)
           = displayed s @ [(''Regional disease risk assessment loaded successfully.'', False)]"
    and "has_summary d \<Longrightarrow>
         regionalDataSummary (loadRegionalStatistics d lat lon (Resolved response) s)
           = Some (summary_table_of D)"
    and "has_canvas d \<Longrightarrow>
         chart_objects (loadRegionalStatistics d lat lon (Resolved response) s)
           = chart_objects s @ [chart_config_of D]"
    and "has_canvas d \<Longrightarrow>
         regionalChartInstance (loadRegionalStatistics d lat lon (Resolved response) s)
           = Some (length (chart_objects s))"
    and "has_canvas d \<Longrightarrow>
         live_charts (loadRegionalStatistics d lat lon (Resolved response) s)
           = insert (length (chart_objects s))
               (live_charts s - set_option (regionalChartInstance s))"
  unfolding rendered_state [OF assms]
  by (simp_all add: displayMessage_def renderTopTreatments_def renderSummaryTable_def
      renderRegionalChart_def new_chart_def destroy_chart_def apiCall_def
      split: option.splits)

text \<open>
  C4 (as amended). For every non-empty distribution whose counts are all zero, every
  disease row of the summary table shows \<open>0%\<close>; and the report flow does not take the
  empty-result path for it: the status line keeps the fetching text, the success message
  is displayed, the summary table is written when its container exists and a Chart
  object is constructed and live when the canvas exists. (The empty-result path is taken
  for a distribution without entries only.)
\<close>

theorem C4_zero_total_rendering:
  "D \<noteq> [] \<and> (\<forall>e \<in> set D. snd e = 0) \<longrightarrow>
     (\<forall>r \<in> set (table_rows (summary_table_of D)). row_percentage r = ''0%'')
     \<and> (regional_data response = Some D \<longrightarrow>
          chartMessage (loadRegionalStatistics d lat lon (Resolved response) s)
            = ''Fetching data from surrounding 5km...''
          \<and> displayed (loadRegionalStatistics d lat lon (Resolved response) s)
            = displayed s @ [(''Regional disease risk assessment loaded successfully.'', False)]
          \<and> (has_summary d \<longrightarrow>
               regionalDataSummary (loadRegionalStatistics d lat lon (Resolved response) s)
                 = Some (summary_table_of D))
          \<and> (has_canvas d \<longrightarrow>
               chart_objects (loadRegionalStatistics d lat lon (Resolved response) s)
                 = chart_objects s @ [chart_config_of D]
               \<and> regionalChartInstance (loadRegionalStatistics d lat lon (Resolved response) s)
                 = Some (length (chart_objects s))
               \<and> length (chart_objects s)
                   \<in> live_charts (loadRegionalStatistics d lat lon (Resolved response) s)))"
proof (intro impI, elim conjE)
  assume nonempty: "D \<noteq> []" and zero: "\<forall>e \<in> set D. snd e = 0"
  have rows: "\<forall>r \<in> set (table_rows (summary_table_of D)). row_percentage r = ''0%''"
    by (simp add: summary_table_of_def Let_def all_zero_total [OF zero] summary_row_of_def
        percentage_text_zero_total)
  have flow: "chartMessage (loadRegionalStatistics d lat lon (Resolved response) s)
            = ''Fetching data from surrounding 5km...''
          \<and> displayed (loadRegionalStatistics d lat lon (Resolved response) s)
            = displayed s @ [(''Regional disease risk assessment loaded successfully.'', False)]
          \<and> (has_summary d \<longrightarrow>
               regionalDataSummary (loadRegionalStatistics d lat lon (Resolved response) s)
                 = Some (summary_table_of D))
          \<and> (has_canvas d \<longrightarrow>
               chart_objects (loadRegionalStatistics d lat lon (Resolved response) s)
                 = chart_objects s @ [chart_config_of D]
               \<and> regionalChartInstance (loadRegionalStatistics d lat lon (Resolved response) s)
                 = Some (length (chart_objects s))
               \<and> length (chart_objects s)
                   \<in> live_charts (loadRegionalStatistics d lat lon (Resolved response) s))"
    if "regional_data response = Some D"
    using rendered_fields [OF that nonempty, of d lat lon s] by simp
  from rows flow
  show "(\<forall>r \<in> set (table_rows (summary_table_of D)). row_percentage r = ''0%'')
     \<and> (regional_data response = Some D \<longrightarrow>
          chartMessage (loadRegionalStatistics d lat lon (Resolved response) s)
            = ''Fetching data from surrounding 5km...''
          \<and> displayed (loadRegionalStatistics d lat lon (Resolved response) s)
            = displayed s @ [(''Regional disease risk assessment loaded successfully.'', False)]
          \<and> (has_summary d \<longrightarrow>
               regionalDataSummary (loadRegionalStatistics d lat lon (Resolved response) s)
                 = Some (summary_table_of D))
          \<and> (has_canvas d \<longrightarrow>
               chart_objects (loadRegionalStatistics d lat lon (Resolved response) s)
                 = chart_objects s @ [chart_config_of D]
               \<and> regionalChartInstance (loadRegionalStatistics d lat lon (Resolved response) s)
                 = Some (length (chart_objects s))
               \<and> length (chart_objects s)
                   \<in> live_charts (loadRegionalStatistics d lat lon (Resolved response) s)))"
    by blast
qed

theorem C4_zero_total_rendering_witness:
  "[(''Anthracnose'', 0 :: nat)] \<noteq> []
   \<and> snd (''Anthracnose'', 0 :: nat) = 0
   \<and> map row_percentage (table_rows (summary_table_of [(''Anthracnose'', 0)])) = [''0%'']
   \<and> regional_data all_zero_response = Some [(''Anthracnose'', 0)]
   \<and> has_summary full_dom \<and> has_canvas full_dom
   \<and> regionalDataSummary (loadRegionalStatistics full_dom ''12.97'' ''77.59''
        (Resolved all_zero_response) fresh_page) = Some (summary_table_of [(''Anthracnose'', 0)])
   \<and> regionalChartInstance (loadRegionalStatistics full_dom ''12.97'' ''77.59''
        (Resolved all_zero_response) fresh_page) = Some 0"
proof -
  have pre: "[(''Anthracnose'', 0 :: nat)] \<noteq> [] \<and> (\<forall>e \<in> set [(''Anthracnose'', 0 :: nat)]. snd e = 0)"
    by simp
  have resp: "regional_data all_zero_response = Some [(''Anthracnose'', 0)]"
    by (simp add: all_zero_response_def)
  have els: "has_summary full_dom" "has_canvas full_dom"
    by (simp_all add: full_dom_def)
  note inst = C4_zero_total_rendering
      [of "[(''Anthracnose'', 0)]" all_zero_response full_dom "''12.97''" "''77.59''" fresh_page,
       rule_format, OF pre]
  have rows: "map row_percentage (table_rows (summary_table_of [(''Anthracnose'', 0)])) = [''0%'']"
    using inst [THEN conjunct1]
    by (simp add: summary_table_of_def sortedEntries_def Let_def)
  from inst [THEN conjunct2, rule_format, OF resp] els rows resp
  show ?thesis by (simp add: fresh_page_def)
qed

text \<open>
  C4 as stated has the flow stop at the empty-result message, without a chart, for every
  distribution of total zero. For \<open>{Anthracnose: 0}\<close> on a fresh page the flow
  constructs a chart, leaves the status line at the fetching text and reports success.
\<close>

theorem C4_all_zero_distribution_counterexample:
  "regional_data all_zero_response = Some [(''Anthracnose'', 0)]
   \<and> live_charts (loadRegionalStatistics full_dom ''12.97'' ''77.59''
        (Resolved all_zero_response) fresh_page) = {0}
   \<and> chart_objects (loadRegionalStatistics full_dom ''12.97'' ''77.59''
        (Resolved all_zero_response) fresh_page) = [chart_config_of [(''Anthracnose'', 0)]]
   \<and> chartMessage (loadRegionalStatistics full_dom ''12.97'' ''77.59''
        (Resolved all_zero_response) fresh_page) = ''Fetching data from surrounding 5km...''
   \<and> displayed (loadRegionalStatistics full_dom ''12.97'' ''77.59''
        (Resolved all_zero_response) fresh_page)
       = [(''Regional disease risk assessment loaded successfully.'', False)]"
  by (simp add: all_zero_response_def flow_defs fresh_page_def full_dom_def)

subsection \<open>At most one chart\<close>

lemma chart_inv_fresh_page: "chart_inv fresh_page"
  by (simp add: chart_inv_def fresh_page_def)

lemma destroy_chart_clears: "chart_inv s \<Longrightarrow> live_charts (destroy_chart s) = {}"
  by (auto simp: chart_inv_def destroy_chart_fields)

lemma chart_inv_destroy_chart: "chart_inv s \<Longrightarrow> chart_inv (destroy_chart s)"
  by (auto simp: chart_inv_def destroy_chart_fields)

lemma new_chart_after_destroy:
  "chart_inv s \<Longrightarrow>
   live_charts (new_chart config (destroy_chart s)) = {length (chart_objects s)}
   \<and> regionalChartInstance (new_chart config (destroy_chart s)) = Some (length (chart_objects s))"
  by (simp add: new_chart_def destroy_chart_clears destroy_chart_fields(2,3))

lemma chart_inv_renderRegionalChart:
  "chart_inv s \<Longrightarrow> chart_inv (renderRegionalChart d D s)"
  using new_chart_after_destroy [of s "chart_config_of D"]
  by (simp add: renderRegionalChart_def chart_inv_def)

lemma render_frames:
  "live_charts (renderSummaryTable d D s) = live_charts s"
  "regionalChartInstance (renderSummaryTable d D s) = regionalChartInstance s"
  "live_charts (renderTopTreatments d ts s) = live_charts s"
  "regionalChartInstance (renderTopTreatments d ts s) = regionalChartInstance s"
  "live_charts (displayMessage txt e s) = live_charts s"
  "regionalChartInstance (displayMessage txt e s) = regionalChartInstance s"
  "live_charts (apiCall endpoint s) = live_charts s"
  "regionalChartInstance (apiCall endpoint s) = regionalChartInstance s"
  by (simp_all add: renderSummaryTable_def renderTopTreatments_def displayMessage_def
      apiCall_def)

lemma chart_inv_frame:
  "live_charts s' = live_charts s \<Longrightarrow> regionalChartInstance s' = regionalChartInstance s \<Longrightarrow>
   chart_inv s \<Longrightarrow> chart_inv s'"
  by (simp add: chart_inv_def)

lemma chart_inv_loadRegionalStatistics:
  assumes "chart_inv s"
  shows "chart_inv (loadRegionalStatistics d lat lon outcome s)"
proof -
  let ?s4 = "apiCall (stats_endpoint lat lon)
                (s\<lparr>chartMessage := ''Fetching data from surrounding 5km...'',
                   regionalDataSummary := (if has_summary d then None else regionalDataSummary s),
                   treatmentSummary := (if has_treatment d then None else treatmentSummary s)\<rparr>)"
  have s4: "chart_inv ?s4"
    using assms by (simp add: chart_inv_def apiCall_def)
  show ?thesis
  proof (cases outcome)
    case (Rejected err)
    have "chart_inv (displayMessage (str_or (Some err) ''Failed to load regional data.'') True
          (?s4\<lparr>chartMessage := ''Failed to load regional data: '' @ err\<rparr>))"
      using s4 by (simp add: chart_inv_def displayMessage_def)
    then show ?thesis
      unfolding Rejected rejected_state by (rule chart_inv_destroy_chart)
  next
    case (Resolved response)
    show ?thesis
    proof (cases "regional_data response = None \<or> regional_data response = Some []")
      case True
      have "chart_inv (?s4\<lparr>chartMessage :=
                str_or (message response) ''No active diseased trees found within 5km.''\<rparr>)"
        using s4 by (simp add: chart_inv_def)
      then show ?thesis
        unfolding Resolved empty_result_state [OF True] by (rule chart_inv_destroy_chart)
    next
      case False
      then obtain D where D: "regional_data response = Some D" "D \<noteq> []"
        by auto
      have "chart_inv (renderRegionalChart d D ?s4)"
        using s4 by (rule chart_inv_renderRegionalChart)
      then show ?thesis
        unfolding Resolved rendered_state [OF D]
        by (rule chart_inv_frame [rotated 2]) (simp_all only: render_frames)
    qed
  qed
qed

lemma chart_inv_generate_click: "chart_inv s \<Longrightarrow> chart_inv (generate_click d outcome s)"
proof -
  assume inv: "chart_inv s"
  have "chart_inv (s\<lparr>generate_disabled := True, generate_text := ''Analyzing...''\<rparr>)"
    using inv by (simp add: chart_inv_def)
  from chart_inv_loadRegionalStatistics [OF this]
  show ?thesis
    using inv by (simp add: generate_click_def Let_def chart_inv_def displayMessage_def)
qed

lemma chart_inv_loadFarmLocations: "chart_inv s \<Longrightarrow> chart_inv (loadFarmLocations farms s)"
  by (simp add: chart_inv_def loadFarmLocations_def Let_def split: api_outcome.splits)

lemma chart_inv_loadAllTreatments: "chart_inv s \<Longrightarrow> chart_inv (loadAllTreatments d diseases s)"
  by (simp add: chart_inv_def loadAllTreatments_def Let_def apiCall_def split: api_outcome.splits)

lemma reachable_chart_inv: "reachable d s \<Longrightarrow> chart_inv s"
proof (induction rule: reachable.induct)
  case start
  show ?case by (rule chart_inv_fresh_page)
next
  case (farms_loaded s farms)
  then show ?case by (simp add: chart_inv_loadFarmLocations)
next
  case (guide_loaded s diseases)
  then show ?case by (simp add: chart_inv_loadAllTreatments)
next
  case (coordinates_edited s lat lon)
  then show ?case by (simp add: chart_inv_def)
next
  case (report_generated s outcome)
  then show ?case by (simp add: chart_inv_generate_click)
qed

lemma chart_inv_card: "chart_inv s \<Longrightarrow> card (live_charts s) \<le> 1"
proof -
  assume "chart_inv s"
  then have sub: "live_charts s \<subseteq> set_option (regionalChartInstance s)"
    by (simp add: chart_inv_def)
  have "card (set_option (regionalChartInstance s)) \<le> 1"
    by (cases "regionalChartInstance s") simp_all
  moreover have "card (live_charts s) \<le> card (set_option (regionalChartInstance s))"
    using sub by (intro card_mono) (cases "regionalChartInstance s", simp_all)
  ultimately show ?thesis by linarith
qed

text \<open>
  C5. In every state the page can reach, at most one Chart object is live, and it is the
  one the global \<open>regionalChartInstance\<close> points to. Destroying leaves no live chart;
  a re-render (with the canvas in the document) is the construction of the new chart
  after the destruction of the prior one, and leaves exactly the new chart live; the
  empty-result path and the fetch-failure path leave no live chart.
\<close>

theorem C5_at_most_one_chart:
  "reachable d s \<longrightarrow>
     card (live_charts s) \<le> 1
     \<and> live_charts s \<subseteq> set_option (regionalChartInstance s)
     \<and> live_charts (destroy_chart s) = {}
     \<and> (has_canvas d \<longrightarrow>
          renderRegionalChart d D s = new_chart (chart_config_of D) (destroy_chart s)
          \<and> live_charts (renderRegionalChart d D s) = {length (chart_objects s)}
          \<and> regionalChartInstance (renderRegionalChart d D s) = Some (length (chart_objects s)))
     \<and> (regional_data response = None \<or> regional_data response = Some [] \<longrightarrow>
          live_charts (loadRegionalStatistics d lat lon (Resolved response) s) = {})
     \<and> live_charts (loadRegionalStatistics d lat lon (Rejected err) s) = {}
     \<and> card (live_charts (generate_click d outcome s)) \<le> 1"
proof
  assume r: "reachable d s"
  then have inv: "chart_inv s" by (rule reachable_chart_inv)
  have one: "card (live_charts s) \<le> 1" using inv by (rule chart_inv_card)
  have sub: "live_charts s \<subseteq> set_option (regionalChartInstance s)"
    using inv by (simp add: chart_inv_def)
  have gone: "live_charts (destroy_chart s) = {}" using inv by (rule destroy_chart_clears)
  have render: "renderRegionalChart d D s = new_chart (chart_config_of D) (destroy_chart s)
          \<and> live_charts (renderRegionalChart d D s) = {length (chart_objects s)}
          \<and> regionalChartInstance (renderRegionalChart d D s) = Some (length (chart_objects s))"
    if "has_canvas d"
    using that new_chart_after_destroy [OF inv, of "chart_config_of D"]
    by (simp add: renderRegionalChart_def)
  have empty: "live_charts (loadRegionalStatistics d lat lon (Resolved response) s) = {}"
    if "regional_data response = None \<or> regional_data response = Some []"
    using sub by (auto simp: empty_result_state [OF that] destroy_chart_fields apiCall_def)
  have failed: "live_charts (loadRegionalStatistics d lat lon (Rejected err) s) = {}"
    using sub by (auto simp: rejected_state destroy_chart_fields displayMessage_def apiCall_def)
  have click: "card (live_charts (generate_click d outcome s)) \<le> 1"
    using chart_inv_generate_click [OF inv] by (rule chart_inv_card)
  from one sub gone render empty failed click
  show "card (live_charts s) \<le> 1
     \<and> live_charts s \<subseteq> set_option (regionalChartInstance s)
     \<and> live_charts (destroy_chart s) = {}
     \<and> (has_canvas d \<longrightarrow>
          renderRegionalChart d D s = new_chart (chart_config_of D) (destroy_chart s)
          \<and> live_charts (renderRegionalChart d D s) = {length (chart_objects s)}
          \<and> regionalChartInstance (renderRegionalChart d D s) = Some (length (chart_objects s)))
     \<and> (regional_data response = None \<or> regional_data response = Some [] \<longrightarrow>
          live_charts (loadRegionalStatistics d lat lon (Resolved response) s) = {})
     \<and> live_charts (loadRegionalStatistics d lat lon (Rejected err) s) = {}
     \<and> card (live_charts (generate_click d outcome s)) \<le> 1"
    by blast
qed


lemma reachable_reported_page: "reachable full_dom reported_page"
proof -
  have "reachable full_dom located_page"
    unfolding located_page_def by (rule coordinates_edited) (rule start)
  then show ?thesis
    unfolding reported_page_def by (rule report_generated)
qed

lemma reported_page_chart:
  "live_charts reported_page = {0}"
  "chart_objects reported_page
     = [chart_config_of [(''Anthracnose'', 4), (''Gall Midge'', 2), (''Sooty Mould'', 1)]]"
  by (simp_all add: reported_page_def located_page_def fresh_page_def full_dom_def
      sample_response_def generate_click_def flow_defs)

theorem C5_at_most_one_chart_witness:
  "reachable full_dom reported_page
   \<and> live_charts reported_page = {0}
   \<and> card (live_charts reported_page) \<le> 1
   \<and> live_charts (destroy_chart reported_page) = {}
   \<and> has_canvas full_dom
   \<and> live_charts (renderRegionalChart full_dom [(''Gall Midge'', 3)] reported_page) = {1}
   \<and> regional_data nothing_nearby_response = None
   \<and> live_charts (loadRegionalStatistics full_dom ''12.97'' ''77.59''
        (Resolved nothing_nearby_response) reported_page) = {}
   \<and> live_charts (loadRegionalStatistics full_dom ''12.97'' ''77.59''
        (Rejected ''offline'') reported_page) = {}"
proof -
  have canvas: "has_canvas full_dom"
    by (simp add: full_dom_def)
  have absent: "regional_data nothing_nearby_response = None"
    by (simp add: nothing_nearby_response_def)
  note inst = C5_at_most_one_chart
      [of full_dom reported_page "[(''Gall Midge'', 3)]" nothing_nearby_response
          "''12.97''" "''77.59''" "''offline''" "Rejected ''offline''",
       rule_format, OF reachable_reported_page]
  have "live_charts (renderRegionalChart full_dom [(''Gall Midge'', 3)] reported_page)
          = {length (chart_objects reported_page)}"
    using inst canvas by blast
  then have second: "live_charts (renderRegionalChart full_dom [(''Gall Midge'', 3)] reported_page)
          = {1}"
    by (simp add: reported_page_chart)
  have rest: "card (live_charts reported_page) \<le> 1
     \<and> live_charts (destroy_chart reported_page) = {}
     \<and> live_charts (loadRegionalStatistics full_dom ''12.97'' ''77.59''
          (Resolved nothing_nearby_response) reported_page) = {}
     \<and> live_charts (loadRegionalStatistics full_dom ''12.97'' ''77.59''
          (Rejected ''offline'') reported_page) = {}"
    using inst absent by blast
  from rest second canvas absent reachable_reported_page reported_page_chart(1)
  show ?thesis by blast
qed

subsection \<open>Double-precision rounding\<close>

lemma bit_length_upper: "n < 2 ^ bit_length n"
proof (induction n rule: bit_length.induct)
  case (1 n)
  show ?case
  proof (cases "n = 0")
    case True
    then show ?thesis by (simp add: bit_length.simps)
  next
    case False
    with 1 have "n div 2 < 2 ^ bit_length (n div 2)" by simp
    then have "n < 2 * 2 ^ bit_length (n div 2)" by linarith
    with False show ?thesis by (subst bit_length.simps) simp
  qed
qed

lemma bit_length_lower: "0 < n \<Longrightarrow> 2 ^ (bit_length n - 1) \<le> n"
proof (induction n rule: bit_length.induct)
  case (1 n)
  show ?case
  proof (cases "n div 2 = 0")
    case True
    with 1(2) have "bit_length n = 1"
      by (simp add: bit_length.simps [of n] bit_length.simps [of 0])
    with 1(2) show ?thesis by simp
  next
    case False
    with 1 have ih: "2 ^ (bit_length (n div 2) - 1) \<le> n div 2" by simp
    from False have pos: "0 < bit_length (n div 2)"
      by (subst bit_length.simps) simp
    have "bit_length n = Suc (bit_length (n div 2))"
      using 1(2) by (subst bit_length.simps) simp
    then have "(2::nat) ^ (bit_length n - 1) = 2 * 2 ^ (bit_length (n div 2) - 1)"
      using pos by (cases "bit_length (n div 2)") simp_all
    with ih show ?thesis by linarith
  qed
qed

lemma bit_length_pos: "0 < n \<Longrightarrow> 0 < bit_length n"
  by (subst bit_length.simps) simp

text \<open>The binade is a lower bound: \<open>2^E \<le> n / d\<close>, stated on integers.\<close>

lemma binade_lower_nat:
  assumes "0 < n" "0 < d"
  shows "d * 2 ^ nat (binade n d) \<le> n * 2 ^ nat (- binade n d)"
proof -
  define e0 where "e0 = int (bit_length n) - int (bit_length d)"
  show ?thesis
  proof (cases "d * 2 ^ nat e0 \<le> n * 2 ^ nat (- e0)")
    case True
    then show ?thesis by (simp add: binade_def e0_def Let_def)
  next
    case False
    then have E: "binade n d = e0 - 1" by (simp add: binade_def e0_def Let_def)
    have up: "d < 2 ^ bit_length d" by (rule bit_length_upper)
    have lo: "2 ^ (bit_length n - 1) \<le> n" using assms(1) by (rule bit_length_lower)
    have bn: "0 < bit_length n" using assms(1) by (rule bit_length_pos)
    show ?thesis
    proof (cases "1 \<le> e0")
      case True
      then have k: "nat (e0 - 1) = bit_length n - bit_length d - 1" "nat (- (e0 - 1)) = 0"
          "nat (1 - e0) = 0"
        and le: "bit_length d + 1 \<le> bit_length n"
        by (simp_all add: e0_def)
      have "d * 2 ^ (bit_length n - bit_length d - 1)
              \<le> 2 ^ bit_length d * 2 ^ (bit_length n - bit_length d - 1)"
        using up by simp
      also have "\<dots> = 2 ^ (bit_length d + (bit_length n - bit_length d - 1))"
        by (simp add: power_add)
      also have "bit_length d + (bit_length n - bit_length d - 1) = bit_length n - 1"
        using le by simp
      finally show ?thesis using lo by (simp add: E k)
    next
      case False
      then have k: "nat (e0 - 1) = 0" "nat (- (e0 - 1)) = bit_length d - bit_length n + 1"
          "nat (1 - e0) = bit_length d - bit_length n + 1"
        and le: "bit_length n \<le> bit_length d"
        by (simp_all add: e0_def)
      have "d \<le> 2 ^ bit_length d" using up by simp
      also have "bit_length d = (bit_length n - 1) + (bit_length d - bit_length n + 1)"
        using le bn by simp
      also have "(2::nat) ^ \<dots> = 2 ^ (bit_length n - 1) * 2 ^ (bit_length d - bit_length n + 1)"
        by (simp only: power_add)
      also have "\<dots> \<le> n * 2 ^ (bit_length d - bit_length n + 1)"
        using lo by simp
      finally show ?thesis by (simp add: E k)
    qed
  qed
qed

lemma two_powi_split: "(2::rat) powi k = 2 ^ nat k / 2 ^ nat (- k)"
  by (cases "0 \<le> k") (simp_all add: power_int_def field_simps)

lemma binade_lower:
  assumes "0 < n" "0 < d"
  shows "(2::rat) powi (binade n d) \<le> of_nat n / of_nat d"
proof -
  have "of_nat (d * 2 ^ nat (binade n d)) \<le> (of_nat (n * 2 ^ nat (- binade n d)) :: rat)"
    using binade_lower_nat [OF assms] by (simp only: of_nat_le_iff)
  then have "of_nat d * (2::rat) ^ nat (binade n d) \<le> of_nat n * 2 ^ nat (- binade n d)"
    by simp
  then have "(2::rat) ^ nat (binade n d) / 2 ^ nat (- binade n d) \<le> of_nat n / of_nat d"
    using assms(2) by (simp add: field_simps)
  then show ?thesis by (simp add: two_powi_split)
qed

lemma round_ties_even_int:
  assumes "0 < d"
  shows "2 * \<bar>int (round_ties_even n d) * int d - int n\<bar> \<le> int d"
proof -
  have split: "int n = int (n div d) * int d + int (n mod d)"
    by (metis div_mult_mod_eq of_nat_add of_nat_mult)
  have r: "n mod d < d" using assms by simp
  show ?thesis
    unfolding round_ties_even_def Let_def using r split
    by (auto simp: algebra_simps)
qed

lemma round_ties_even_near:
  assumes "0 < d"
  shows "\<bar>of_nat (round_ties_even n d) - of_nat n / (of_nat d :: rat)\<bar> \<le> 1 / 2"
proof -
  have "of_int (2 * \<bar>int (round_ties_even n d) * int d - int n\<bar>) \<le> (of_int (int d) :: rat)"
    using round_ties_even_int [OF assms, of n] by (simp only: of_int_le_iff)
  then have "2 * \<bar>of_nat (round_ties_even n d) * of_nat d - (of_nat n :: rat)\<bar> \<le> of_nat d"
    by simp
  moreover have "of_nat (round_ties_even n d) - of_nat n / (of_nat d :: rat)
      = (of_nat (round_ties_even n d) * of_nat d - of_nat n) / of_nat d"
    using assms by (simp add: field_simps)
  ultimately show ?thesis
    using assms by (simp add: abs_divide field_simps)
qed

lemma dval_zero: "dval (0, 0) = 0"
  by (simp add: dval_def)

lemma dval_nonneg: "0 \<le> dval x"
  by (simp add: dval_def)

text \<open>Rounding to a double has relative error at most \<open>2^-53\<close>.\<close>

lemma to_double_error:
  assumes "0 < n" "0 < d"
  shows "\<bar>dval (to_double n d) - of_nat n / of_nat d\<bar> \<le> of_nat n / of_nat d / 2 ^ 53"
proof -
  define E where "E = binade n d"
  define s where "s = 52 - E"
  define m where "m = round_ties_even (n * 2 ^ nat s) (d * 2 ^ nat (- s))"
  define x :: rat where "x = of_nat n / of_nat d"
  have td: "to_double n d = (m, - s)"
    using assms(1) by (simp add: to_double_def Let_def m_def s_def E_def)
  have dv: "dval (to_double n d) = of_nat m * 2 powi (- s)"
    by (simp add: td dval_def)
  have "0 < d * 2 ^ nat (- s)" using assms(2) by simp
  from round_ties_even_near [OF this, of "n * 2 ^ nat s"]
  have "\<bar>of_nat m - of_nat (n * 2 ^ nat s) / (of_nat (d * 2 ^ nat (- s)) :: rat)\<bar> \<le> 1 / 2"
    by (simp only: m_def)
  moreover have "of_nat (n * 2 ^ nat s) / (of_nat (d * 2 ^ nat (- s)) :: rat) = x * 2 powi s"
    by (simp add: x_def two_powi_split)
  ultimately have near: "\<bar>of_nat m - x * 2 powi s\<bar> \<le> 1 / 2" by simp
  have pos: "(0::rat) < 2 powi (- s)" by simp
  have "dval (to_double n d) - x = (of_nat m - x * 2 powi s) * 2 powi (- s)"
    by (simp add: dv algebra_simps power_int_minus)
  then have "\<bar>dval (to_double n d) - x\<bar> = \<bar>of_nat m - x * 2 powi s\<bar> * 2 powi (- s)"
    by (simp add: abs_mult)
  also have "\<dots> \<le> 1 / 2 * 2 powi (- s)"
    using near pos by (intro mult_right_mono) simp_all
  also have "1 / 2 * (2::rat) powi (- s) = 2 powi E / 2 ^ 53"
  proof -
    have "(2::rat) powi (E - 52) = 2 powi E / 2 powi 52"
      by (rule power_int_diff) simp
    moreover have "(2::rat) powi 52 = 2 ^ 52"
      by (simp add: power_int_def)
    moreover have "- s = E - 52" by (simp add: s_def)
    ultimately have "(2::rat) powi (- s) = 2 powi E / 2 ^ 52" by simp
    then show ?thesis by simp
  qed
  also have "\<dots> \<le> x / 2 ^ 53"
    using binade_lower [OF assms] by (simp add: E_def x_def divide_right_mono)
  finally show ?thesis by (simp add: x_def)
qed

lemma js_div_error:
  assumes "0 < b"
  shows "\<bar>dval (js_div a b) - of_nat a / of_nat b\<bar> \<le> of_nat a / of_nat b / 2 ^ 53"
proof (cases "a = 0")
  case True
  then show ?thesis by (simp add: js_div_def to_double_def dval_zero)
next
  case False
  then show ?thesis
    unfolding js_div_def using assms by (intro to_double_error) simp_all
qed

lemma js_mul_error:
  "\<bar>dval (js_mul x k) - of_nat k * dval x\<bar> \<le> of_nat k * dval x / 2 ^ 53"
proof (cases "fst x * k * 2 ^ nat (snd x) = 0")
  case True
  then have "fst x = 0 \<or> k = 0" by simp
  then have a: "of_nat k * dval x = 0" by (auto simp: dval_def)
  have b: "dval (js_mul x k) = 0"
    using True by (simp add: js_mul_def to_double_def dval_zero)
  show ?thesis unfolding a b by simp
next
  case False
  then have pos: "0 < fst x * k * 2 ^ nat (snd x)" by simp
  have exact: "of_nat (fst x * k * 2 ^ nat (snd x)) / (of_nat (2 ^ nat (- snd x)) :: rat)
                 = of_nat k * dval x"
    by (simp add: dval_def two_powi_split)
  from to_double_error [OF pos, of "2 ^ nat (- snd x)"]
  show ?thesis
    unfolding js_mul_def exact by simp
qed

lemma nat_div_floor:
  assumes "0 < b"
  shows "of_nat (a div b) \<le> of_nat a / (of_nat b :: rat)"
    and "of_nat a / (of_nat b :: rat) < of_nat (a div b) + 1"
proof -
  have eq: "a = a div b * b + a mod b" by simp
  have "(of_nat a :: rat) = of_nat (a div b * b + a mod b)" by (simp only: eq [symmetric])
  then have split: "(of_nat a :: rat) = of_nat (a div b) * of_nat b + of_nat (a mod b)"
    by (simp only: of_nat_add of_nat_mult)
  have "a mod b < b" using assms by simp
  then have lt: "(of_nat (a mod b) :: rat) < of_nat b" by (simp only: of_nat_less_iff)
  have ge: "(0::rat) \<le> of_nat (a mod b)" by simp
  have bpos: "(0::rat) < of_nat b" using assms by simp
  show "of_nat (a div b) \<le> of_nat a / (of_nat b :: rat)"
    using ge bpos by (simp add: split field_simps)
  show "of_nat a / (of_nat b :: rat) < of_nat (a div b) + 1"
    using lt bpos by (simp add: split field_simps)
qed

text \<open>\<open>toFixed(1)\<close> is \<open>\<lfloor>10 x + 1/2\<rfloor>\<close> tenths.\<close>

lemma toFixed1_tenths_floor:
  "of_nat (toFixed1_tenths x) \<le> 10 * dval x + 1 / 2"
  "10 * dval x + 1 / 2 < of_nat (toFixed1_tenths x) + 1"
proof -
  have pos: "0 < 2 * (2::nat) ^ nat (- snd x)" by simp
  have "of_nat (fst x * 20 * 2 ^ nat (snd x) + 2 ^ nat (- snd x))
          / (of_nat (2 * 2 ^ nat (- snd x)) :: rat) = 10 * dval x + 1 / 2"
    by (simp add: dval_def two_powi_split field_simps)
  with nat_div_floor [OF pos, of "fst x * 20 * 2 ^ nat (snd x) + 2 ^ nat (- snd x)"]
  show "of_nat (toFixed1_tenths x) \<le> 10 * dval x + 1 / 2"
    "10 * dval x + 1 / 2 < of_nat (toFixed1_tenths x) + 1"
    by (simp_all add: toFixed1_tenths_def)
qed

lemma percentage_error:
  assumes "c \<le> t" "0 < t"
  shows "\<bar>dval (js_mul (js_div c t) 100) - 100 * (of_nat c / of_nat t)\<bar> \<le> 300 / 2 ^ 53"
proof -
  define x :: rat where "x = of_nat c / of_nat t"
  define q where "q = dval (js_div c t)"
  define p where "p = dval (js_mul (js_div c t) 100)"
  define eps :: rat where "eps = 1 / 2 ^ 53"
  have eps: "0 < eps" "eps \<le> 1" by (simp_all add: eps_def)
  have x0: "0 \<le> x" by (simp add: x_def)
  have x1: "x \<le> 1" using assms by (simp add: x_def)
  have "x / 2 ^ 53 = x * eps" by (simp add: eps_def)
  moreover have "\<bar>q - x\<bar> \<le> x / 2 ^ 53"
    unfolding q_def x_def by (rule js_div_error [OF assms(2)])
  ultimately have "\<bar>q - x\<bar> \<le> x * eps" by (simp only:)
  moreover have "x * eps \<le> 1 * eps" using x1 eps(1) by (intro mult_right_mono) simp_all
  ultimately have "\<bar>q - x\<bar> \<le> 1 * eps" by (rule order_trans)
  then have q: "\<bar>q - x\<bar> \<le> eps" by simp
  then have q2: "q \<le> 2" using x1 eps(2) by linarith
  have q0: "0 \<le> q" by (simp add: q_def dval_nonneg)
  have "100 * q / 2 ^ 53 = (100 * q) * eps" by (simp add: eps_def)
  moreover have "\<bar>p - 100 * q\<bar> \<le> 100 * q / 2 ^ 53"
    using js_mul_error [of "js_div c t" 100] unfolding p_def q_def
    by (simp only: of_nat_numeral)
  ultimately have "\<bar>p - 100 * q\<bar> \<le> (100 * q) * eps" by (simp only:)
  moreover have "(100 * q) * eps \<le> 200 * eps"
    using q2 eps(1) by (intro mult_right_mono) simp_all
  ultimately have p: "\<bar>p - 100 * q\<bar> \<le> 200 * eps" by (rule order_trans)
  have "\<bar>p - 100 * x\<bar> \<le> 300 * eps" using p q by linarith
  moreover have "300 * eps = 300 / 2 ^ 53" by (simp add: eps_def)
  ultimately show ?thesis unfolding p_def x_def by (simp only:)
qed

lemma percentage_tenths_nearest:
  assumes "c \<le> t" "0 < t" "t < 2 ^ 40"
  shows "2 * \<bar>int (percentage_tenths c t) * int t - 1000 * int c\<bar> \<le> int t"
proof -
  define C :: rat where "C = of_nat c"
  define T :: rat where "T = of_nat t"
  define D :: rat where "D = of_nat (percentage_tenths c t)"
  define p where "p = dval (js_mul (js_div c t) 100)"
  define delta :: rat where "delta = 3000 / 2 ^ 53"
  have T0: "0 < T" using assms(2) by (simp add: T_def)
  have "T < of_nat (2 ^ 40)" unfolding T_def using assms(3) by (simp only: of_nat_less_iff)
  then have T40: "T < 2 ^ 40" by simp
  have dT: "delta * T < 1 / 2"
  proof -
    have "delta * T < delta * 2 ^ 40"
      using T40 by (intro mult_strict_left_mono) (simp_all add: delta_def)
    also have "\<dots> < 1 / 2" by (simp add: delta_def)
    finally show ?thesis .
  qed
  have "\<bar>p - 100 * (C / T)\<bar> \<le> 300 / 2 ^ 53"
    unfolding p_def C_def T_def by (rule percentage_error [OF assms(1,2)])
  moreover have "300 / 2 ^ 53 = delta / 10" by (simp add: delta_def)
  ultimately have "\<bar>p - 100 * (C / T)\<bar> \<le> delta / 10" by (simp only:)
  then have err: "\<bar>10 * p - 1000 * (C / T)\<bar> \<le> delta"
    by linarith
  have fl: "D \<le> 10 * p + 1 / 2" "10 * p + 1 / 2 < D + 1"
    using toFixed1_tenths_floor [of "js_mul (js_div c t) 100"]
    by (simp_all add: D_def p_def percentage_tenths_def)
  have CT: "1000 * (C / T) * T = 1000 * C" using T0 by simp
  have exp_up: "(D + 1 / 2 + delta) * T = D * T + T / 2 + delta * T"
    and exp_lo: "(D - 1 / 2 - delta) * T = D * T - T / 2 - delta * T"
    by (simp_all add: algebra_simps)
  have up: "1000 * (C / T) < D + 1 / 2 + delta" using err fl by linarith
  have lo: "D - 1 / 2 - delta \<le> 1000 * (C / T)" using err fl by linarith
  have "1000 * (C / T) * T < (D + 1 / 2 + delta) * T"
    using up T0 by (rule mult_strict_right_mono)
  then have "1000 * C < D * T + T / 2 + delta * T"
    by (simp only: CT exp_up)
  then have up': "2000 * C < 2 * (D * T) + T + 1" using dT by linarith
  have "(D - 1 / 2 - delta) * T \<le> 1000 * (C / T) * T"
    using lo T0 by (intro mult_right_mono) simp_all
  then have "D * T - T / 2 - delta * T \<le> 1000 * C"
    by (simp only: CT exp_lo)
  then have lo': "2 * (D * T) - T - 1 < 2000 * C" using dT by linarith
  have "of_int (2000 * int c) < (of_int (2 * (int (percentage_tenths c t) * int t) + int t + 1) :: rat)"
    using up' by (simp add: C_def T_def D_def)
  then have A: "2000 * int c < 2 * (int (percentage_tenths c t) * int t) + int t + 1"
    by (simp only: of_int_less_iff)
  have "(of_int (2 * (int (percentage_tenths c t) * int t) - int t - 1) :: rat) < of_int (2000 * int c)"
    using lo' by (simp add: C_def T_def D_def)
  then have B: "2 * (int (percentage_tenths c t) * int t) - int t - 1 < 2000 * int c"
    by (simp only: of_int_less_iff)
  define X where "X = int (percentage_tenths c t) * int t"
  from A B have "2000 * int c < 2 * X + int t + 1" "2 * X - int t - 1 < 2000 * int c"
    by (simp_all only: X_def)
  then have "2 * \<bar>X - 1000 * int c\<bar> \<le> int t" by presburger
  then show ?thesis by (simp only: X_def)
qed

subsection \<open>Displayed percentages\<close>

lemmas pct_defs = percentage_text_def percentage_tenths_def toFixed1_def one_decimal_def
  toFixed1_tenths_def js_mul_def js_div_def to_double_def binade_def round_ties_even_def
  bit_length.simps show_nat.simps digits_def Let_def

lemma percentage_text_tenths:
  "0 < t \<Longrightarrow> percentage_text c t = one_decimal (percentage_tenths c t) @ ''%''"
  by (simp add: percentage_text_def percentage_tenths_def toFixed1_def)

lemma set_sortedEntries: "set (sortedEntries D) = set D"
  using mset_array_sort [of by_count_desc D] unfolding sortedEntries_def
  by (rule mset_eq_setD)

lemma sum_list_sortedEntries:
  "sum_list (map f (sortedEntries D)) = sum_list (map f D)" for f :: "string \<times> nat \<Rightarrow> nat"
proof -
  have "mset (map f (sortedEntries D)) = mset (map f D)"
    by (simp add: sortedEntries_def mset_array_sort)
  then show ?thesis by (metis sum_mset_sum_list)
qed

lemma entry_le_total: "e \<in> set D \<Longrightarrow> snd e \<le> totalTrees_of (map snd D)"
  by (simp add: totalTrees_of_sum_list member_le_sum_list)

lemma sum_of_near:
  fixes f g :: "'a \<Rightarrow> nat" and t :: int
  assumes "\<forall>e \<in> set D. 2 * \<bar>int (f e) * t - 1000 * int (g e)\<bar> \<le> t"
  shows "2 * \<bar>int (sum_list (map f D)) * t - 1000 * int (sum_list (map g D))\<bar>
           \<le> int (length D) * t"
  using assms
proof (induction D)
  case Nil
  show ?case by simp
next
  case (Cons e D)
  then have head: "2 * \<bar>int (f e) * t - 1000 * int (g e)\<bar> \<le> t"
    and tail: "2 * \<bar>int (sum_list (map f D)) * t - 1000 * int (sum_list (map g D))\<bar>
                 \<le> int (length D) * t"
    by simp_all
  define a where "a = int (f e) * t - 1000 * int (g e)"
  define b where "b = int (sum_list (map f D)) * t - 1000 * int (sum_list (map g D))"
  define l where "l = int (length D) * t"
  have whole: "int (sum_list (map f (e # D))) * t - 1000 * int (sum_list (map g (e # D)))
          = a + b"
    by (simp add: a_def b_def algebra_simps)
  have len: "int (length (e # D)) * t = t + l"
    by (simp add: l_def algebra_simps)
  from head tail have "2 * \<bar>a\<bar> \<le> t" "2 * \<bar>b\<bar> \<le> l"
    by (simp_all only: a_def b_def l_def)
  then have "2 * \<bar>a + b\<bar> \<le> t + l" by presburger
  then show ?case by (simp only: whole len)
qed

lemma tenths_sum_near:
  assumes "0 < totalTrees_of (map snd D)" "totalTrees_of (map snd D) < 2 ^ 40"
  shows "2 * \<bar>int (sum_list (map (\<lambda>e. percentage_tenths (snd e) (totalTrees_of (map snd D))) D))
              - 1000\<bar> \<le> int (length D)"
proof -
  define t where "t = totalTrees_of (map snd D)"
  define S where "S = sum_list (map (\<lambda>e. percentage_tenths (snd e) t) D)"
  have "\<forall>e \<in> set D. 2 * \<bar>int (percentage_tenths (snd e) t) * int t - 1000 * int (snd e)\<bar> \<le> int t"
    using assms entry_le_total [of _ D]
    by (auto simp: t_def intro!: percentage_tenths_nearest)
  from sum_of_near [OF this]
  have "2 * \<bar>int S * int t - 1000 * int (sum_list (map snd D))\<bar> \<le> int (length D) * int t"
    by (simp only: S_def)
  moreover have "sum_list (map snd D) = t"
    by (simp add: t_def totalTrees_of_sum_list)
  ultimately have "2 * \<bar>int S * int t - 1000 * int t\<bar> \<le> int (length D) * int t"
    by simp
  moreover have "int S * int t - 1000 * int t = (int S - 1000) * int t"
    by (simp add: algebra_simps)
  ultimately have "(2 * \<bar>int S - 1000\<bar>) * int t \<le> int (length D) * int t"
    using assms(1) by (simp add: abs_mult t_def)
  then have "2 * \<bar>int S - 1000\<bar> \<le> int (length D)"
    using assms(1) by (simp add: t_def)
  then show ?thesis by (simp only: S_def t_def)
qed

lemma total_cell_total: "total_cell (summary_table_of D) = totalTrees_of (map snd D)"
  by (simp add: summary_table_of_def Let_def)

lemma table_rows_rows:
  "table_rows (summary_table_of D)
     = map (summary_row_of (totalTrees_of (map snd D))) (sortedEntries D)"
  by (simp add: summary_table_of_def Let_def)

lemma row_fields:
  "row_count (summary_row_of t e) = snd e"
  "row_percentage (summary_row_of t e) = percentage_text (snd e) t"
  by (simp_all add: summary_row_of_def Let_def)

lemma tenths_near_rat:
  assumes "c \<le> t" "0 < t" "t < 2 ^ 40"
  shows "\<bar>rat_of_nat (percentage_tenths c t) / 10 - 100 * rat_of_nat c / rat_of_nat t\<bar> \<le> 1 / 20"
proof -
  define X :: rat where "X = of_nat (percentage_tenths c t)"
  define C :: rat where "C = of_nat c"
  define T :: rat where "T = of_nat t"
  have T0: "0 < T" using assms(2) by (simp add: T_def)
  have "of_int (2 * \<bar>int (percentage_tenths c t) * int t - 1000 * int c\<bar>) \<le> (of_int (int t) :: rat)"
    using percentage_tenths_nearest [OF assms] by (simp only: of_int_le_iff)
  then have "2 * \<bar>X * T - 1000 * C\<bar> \<le> T"
    by (simp add: X_def C_def T_def)
  then have "\<bar>X * T - 1000 * C\<bar> / T \<le> 1 / 2"
    using T0 by (simp add: field_simps)
  moreover have "\<bar>X * T - 1000 * C\<bar> / T = \<bar>(X * T - 1000 * C) / T\<bar>"
    using T0 by (simp add: abs_divide)
  moreover have "(X * T - 1000 * C) / T = X - 1000 * C / T"
    using T0 by (simp add: field_simps)
  ultimately have half: "\<bar>X - 1000 * C / T\<bar> \<le> 1 / 2" by simp
  define Y where "Y = X - 1000 * C / T"
  have "X / 10 - 100 * C / T = Y / 10" by (simp add: Y_def)
  moreover have "\<bar>Y / 10\<bar> \<le> 1 / 20"
    using half unfolding Y_def [symmetric] by linarith
  ultimately have "\<bar>X / 10 - 100 * C / T\<bar> \<le> 1 / 20" by (simp only:)
  then show ?thesis by (simp only: X_def C_def T_def)
qed

text \<open>
  C3 (as amended). For every distribution of non-negative integer counts whose total is
  positive (and below \<open>2^40\<close>), each percentage shown in a summary row and in a chart
  tooltip is the text, with one decimal, of a value that lies within 0.05 of the count
  divided by the sum of all counts, times 100: a one-decimal value nearest to it, where
  at an exact tie (28.75) the lower neighbour can be the one shown, as the rounding is
  applied to the double-precision product. The displayed percentages of the \<open>n\<close> rows
  sum to a value within \<open>n \<times> 0.05\<close> of 100; the sum need not be 100.0.
\<close>

theorem C3_displayed_percentages:
  assumes "0 < total_cell (summary_table_of D)" "total_cell (summary_table_of D) < 2 ^ 40"
  shows
    "(\<forall>r \<in> set (table_rows (summary_table_of D)).
        row_percentage r
          = one_decimal (percentage_tenths (row_count r) (total_cell (summary_table_of D))) @ ''%''
        \<and> \<bar>rat_of_nat (percentage_tenths (row_count r) (total_cell (summary_table_of D))) / 10
             - 100 * rat_of_nat (row_count r) / rat_of_nat (total_cell (summary_table_of D))\<bar>
            \<le> 1 / 20)
     \<and> (\<forall>e \<in> set D.
          tooltip_label (fst e) (snd e) (chart_data (chart_config_of D))
            = fst e @ '': ''
                @ one_decimal (percentage_tenths (snd e) (total_cell (summary_table_of D))) @ ''%''
                @ '' ('' @ show_nat (snd e) @ '' affected tree''
                @ (if snd e \<noteq> 1 then ''s'' else []) @ '')'')
     \<and> \<bar>rat_of_nat (sum_list (map (\<lambda>r. percentage_tenths (row_count r)
                                      (total_cell (summary_table_of D)))
                           (table_rows (summary_table_of D)))) / 10 - 100\<bar>
         \<le> rat_of_nat (length (table_rows (summary_table_of D))) / 20"
proof -
  define t where "t = totalTrees_of (map snd D)"
  have t: "total_cell (summary_table_of D) = t"
    by (simp add: total_cell_total t_def)
  have pos: "0 < t" and small: "t < 2 ^ 40"
    using assms by (simp_all only: t)
  have rows: "row_percentage r = one_decimal (percentage_tenths (row_count r) t) @ ''%''
        \<and> \<bar>rat_of_nat (percentage_tenths (row_count r) t) / 10
             - 100 * rat_of_nat (row_count r) / rat_of_nat t\<bar> \<le> 1 / 20"
    if "r \<in> set (table_rows (summary_table_of D))" for r
  proof -
    from that obtain e where e: "e \<in> set D" and r: "r = summary_row_of t e"
      by (auto simp: table_rows_rows set_sortedEntries t_def)
    have "snd e \<le> t" using e by (simp add: t_def entry_le_total)
    from tenths_near_rat [OF this pos small] percentage_text_tenths [OF pos, of "snd e"]
    show ?thesis by (simp add: r row_fields)
  qed
  have tips: "tooltip_label (fst e) (snd e) (chart_data (chart_config_of D))
            = fst e @ '': '' @ one_decimal (percentage_tenths (snd e) t) @ ''%''
                @ '' ('' @ show_nat (snd e) @ '' affected tree''
                @ (if snd e \<noteq> 1 then ''s'' else []) @ '')''"
    for e
    using percentage_text_tenths [OF pos, of "snd e"]
    by (simp add: tooltip_label_def chart_config_of_def Let_def str_or_def
        totalTrees_of_def [symmetric] t_def [symmetric])
  have "map (\<lambda>r. percentage_tenths (row_count r) t) (table_rows (summary_table_of D))
          = map (\<lambda>e. percentage_tenths (snd e) t) (sortedEntries D)"
    by (simp add: table_rows_rows t_def o_def row_fields)
  then have S: "sum_list (map (\<lambda>r. percentage_tenths (row_count r) t) (table_rows (summary_table_of D)))
          = sum_list (map (\<lambda>e. percentage_tenths (snd e) t) D)"
    by (simp only: sum_list_sortedEntries)
  have len: "length (table_rows (summary_table_of D)) = length D"
    using mset_array_sort [of by_count_desc D]
    by (simp add: table_rows_rows sortedEntries_def) (metis size_mset)
  define S' where "S' = sum_list (map (\<lambda>e. percentage_tenths (snd e) t) D)"
  have "2 * \<bar>int S' - 1000\<bar> \<le> int (length D)"
    using tenths_sum_near [of D] pos small by (simp only: S'_def t_def)
  then have "of_int (2 * \<bar>int S' - 1000\<bar>) \<le> (of_int (int (length D)) :: rat)"
    by (simp only: of_int_le_iff)
  then have "2 * \<bar>rat_of_nat S' - 1000\<bar> \<le> rat_of_nat (length D)"
    by simp
  moreover define Z L where "Z = rat_of_nat S'" and "L = rat_of_nat (length D)"
  ultimately have "2 * \<bar>Z - 1000\<bar> \<le> L" by simp
  then have "\<bar>Z / 10 - 100\<bar> \<le> L / 20" by (auto simp: abs_if split: if_splits)
  then have "\<bar>rat_of_nat S' / 10 - 100\<bar> \<le> rat_of_nat (length D) / 20"
    by (simp only: Z_def L_def)
  then have total: "\<bar>rat_of_nat (sum_list (map (\<lambda>r. percentage_tenths (row_count r) t)
                           (table_rows (summary_table_of D)))) / 10 - 100\<bar>
         \<le> rat_of_nat (length (table_rows (summary_table_of D))) / 20"
    by (simp only: S len S'_def)
  from rows tips total show ?thesis
    unfolding t by blast
qed

lemmas table_defs = summary_table_of_def sortedEntries_def by_count_desc_def summary_row_of_def
  totalTrees_of_def

theorem C3_displayed_percentages_witness:
  "0 < total_cell (summary_table_of tie_distribution)
   \<and> total_cell (summary_table_of tie_distribution) < 2 ^ 40
   \<and> map row_percentage (table_rows (summary_table_of tie_distribution)) = [''71.3%'', ''28.7%'']
   \<and> \<bar>rat_of_nat (percentage_tenths 23 80) / 10 - 100 * 23 / 80\<bar> \<le> 1 / 20
   \<and> tooltip_label ''Anthracnose'' 23 (chart_data (chart_config_of tie_distribution))
       = ''Anthracnose: 28.7% (23 affected trees)''"
proof -
  have total: "total_cell (summary_table_of tie_distribution) = 80"
    by (simp add: tie_distribution_def table_defs)
  have hyp: "0 < total_cell (summary_table_of tie_distribution)"
    "total_cell (summary_table_of tie_distribution) < 2 ^ 40"
    by (simp_all add: total)
  note inst = C3_displayed_percentages [OF hyp]
  have rows: "table_rows (summary_table_of tie_distribution)
      = [summary_row_of 80 (''Gall Midge'', 57), summary_row_of 80 (''Anthracnose'', 23)]"
    by (simp add: tie_distribution_def summary_table_of_def sortedEntries_def by_count_desc_def
        totalTrees_of_def)
  have tenths: "percentage_tenths 57 80 = 713" "percentage_tenths 23 80 = 287"
    by (simp_all add: pct_defs)
  have texts: "one_decimal 713 = ''71.3''" "one_decimal 287 = ''28.7''" "show_nat 23 = ''23''"
    by (simp_all add: one_decimal_def show_nat.simps digits_def)
  have r2: "summary_row_of 80 (''Anthracnose'', 23) \<in> set (table_rows (summary_table_of tie_distribution))"
    and r1: "summary_row_of 80 (''Gall Midge'', 57) \<in> set (table_rows (summary_table_of tie_distribution))"
    by (simp_all add: rows)
  have e: "(''Anthracnose'', 23) \<in> set tie_distribution"
    by (simp add: tie_distribution_def)
  from inst [THEN conjunct1, rule_format, OF r1] inst [THEN conjunct1, rule_format, OF r2]
  have shown: "map row_percentage (table_rows (summary_table_of tie_distribution))
                 = [''71.3%'', ''28.7%'']"
    and near: "\<bar>rat_of_nat (percentage_tenths 23 80) / 10 - 100 * 23 / 80\<bar> \<le> 1 / 20"
    by (simp_all add: rows total row_fields tenths texts)
  from inst [THEN conjunct2, THEN conjunct1, rule_format, OF e]
  have tip: "tooltip_label ''Anthracnose'' 23 (chart_data (chart_config_of tie_distribution))
       = ''Anthracnose: 28.7% (23 affected trees)''"
    by (simp add: total tenths texts)
  from hyp shown near tip show ?thesis by blast
qed

text \<open>
  C3 as stated has the displayed percentages sum to 100.0. For three diseases with one
  affected tree each, every row and tooltip shows 33.3%, and the three displayed values
  sum to 99.9.
\<close>

theorem C3_thirds_counterexample:
  "total_cell (summary_table_of thirds) = 3
   \<and> map row_count (table_rows (summary_table_of thirds)) = [1, 1, 1]
   \<and> map row_percentage (table_rows (summary_table_of thirds)) = [''33.3%'', ''33.3%'', ''33.3%'']
   \<and> tooltip_label ''Anthracnose'' 1 (chart_data (chart_config_of thirds))
       = ''Anthracnose: 33.3% (1 affected tree)''
   \<and> percentage_tenths 1 3 = 333
   \<and> percentage_tenths 1 3 + percentage_tenths 1 3 + percentage_tenths 1 3 = 999"
proof -
  have tenths: "percentage_tenths 1 3 = 333"
    by (simp add: pct_defs)
  have "percentage_text 1 3 = one_decimal (percentage_tenths 1 3) @ ''%''"
    by (rule percentage_text_tenths) simp
  also have "\<dots> = one_decimal 333 @ ''%''"
    by (simp only: tenths)
  also have "one_decimal 333 = ''33.3''"
    by (simp add: one_decimal_def show_nat.simps digits_def)
  finally have third: "percentage_text 1 3 = ''33.3%''" by simp
  have total: "totalTrees_of (map snd thirds) = 3"
    by (simp add: thirds_def totalTrees_of_sum_list)
  have rows: "table_rows (summary_table_of thirds)
      = [summary_row_of 3 (''Anthracnose'', 1), summary_row_of 3 (''Gall Midge'', 1),
         summary_row_of 3 (''Sooty Mould'', 1)]"
    unfolding table_rows_rows total
    by (simp add: thirds_def sortedEntries_def by_count_desc_def)
  have cells: "total_cell (summary_table_of thirds) = 3"
    "map row_count (table_rows (summary_table_of thirds)) = [1, 1, 1]"
    "map row_percentage (table_rows (summary_table_of thirds))
           = [''33.3%'', ''33.3%'', ''33.3%'']"
    using third by (simp_all add: total_cell_total total rows row_fields)
  have "chart_data (chart_config_of thirds) = map snd thirds"
    by (simp add: chart_config_of_def Let_def)
  then have "tooltip_label ''Anthracnose'' 1 (chart_data (chart_config_of thirds))
       = ''Anthracnose: '' @ percentage_text 1 3 @ '' ('' @ show_nat 1 @ '' affected tree'' @ '')''"
    using total by (simp add: tooltip_label_def str_or_def totalTrees_of_def)
  also have "\<dots> = ''Anthracnose: 33.3% (1 affected tree)''"
    unfolding third by (simp add: show_nat.simps digits_def)
  finally have tip: "tooltip_label ''Anthracnose'' 1 (chart_data (chart_config_of thirds))
       = ''Anthracnose: 33.3% (1 affected tree)''" .
  from cells tip tenths show ?thesis by simp
qed

subsection \<open>Placeholder for a missing treatment\<close>

lemma guide_rows_filter:
  "guide_rows diseases
     = map guide_row_of (filter (\<lambda>entry. disease_name entry \<noteq> ''Healthy'') diseases)"
  by (induction diseases) simp_all

lemma treatment_cards_nth:
  "treatment_cards tts = map (\<lambda>k. treatment_card_of k (tts ! k)) [0 ..< length tts]"
  by (auto simp: treatment_cards_def intro!: nth_equalityI)

lemma loadAllTreatments_table:
  "has_guide d \<Longrightarrow>
   allDiseasesTreatment (loadAllTreatments d (Resolved diseases) s) = GuideTable (guide_rows diseases)"
  by (simp add: loadAllTreatments_def Let_def apiCall_def)

lemma renderTopTreatments_cards:
  "has_treatment d \<Longrightarrow> tts \<noteq> [] \<Longrightarrow>
   treatmentSummary (renderTopTreatments d tts s) = Some (treatment_cards tts)"
  by (simp add: renderTopTreatments_def)

lemma report_cards:
  assumes "regional_data response = Some D" "D \<noteq> []" "has_treatment d"
    "top_treatments response = Some tts" "tts \<noteq> []"
  shows "treatmentSummary (loadRegionalStatistics d lat lon (Resolved response) s)
           = Some (treatment_cards tts)"
  unfolding rendered_state [OF assms(1,2)]
  using assms(3-5) by (simp add: displayMessage_def renderTopTreatments_def)

text \<open>
  C10. In the static disease guide and in the top-treatment cards the text
  \<open>No specific ... treatment recorded.\<close> replaces a treatment field that is absent and
  equally one that is the empty string; a non-empty treatment is shown as it is. An
  entry with an empty-string treatment therefore renders exactly as the same entry
  without that field. These rows and cards are what the page shows: the guide is the
  table of one such row for every catalog entry other than \<open>Healthy\<close>, in order, and
  the treatment panel, also at the end of a report, holds one such card for every top
  treatment, numbered from 1.
\<close>

theorem C10_placeholder_for_falsy_treatment:
  "(organic_treatment e = None \<or> organic_treatment e = Some []
      \<longrightarrow> guide_organic (guide_row_of e) = ''No specific organic treatment recorded.'')
   \<and> (chemical_treatment e = None \<or> chemical_treatment e = Some []
      \<longrightarrow> guide_chemical (guide_row_of e) = ''No specific chemical treatment recorded.'')
   \<and> (threat_organic t = None \<or> threat_organic t = Some []
      \<longrightarrow> card_organic (treatment_card_of i t) = ''No specific organic treatment recorded.'')
   \<and> (threat_chemical t = None \<or> threat_chemical t = Some []
      \<longrightarrow> card_chemical (treatment_card_of i t) = ''No specific chemical treatment recorded.'')
   \<and> (x \<noteq> [] \<longrightarrow>
        guide_organic (guide_row_of (e\<lparr>organic_treatment := Some x\<rparr>)) = x
        \<and> guide_chemical (guide_row_of (e\<lparr>chemical_treatment := Some x\<rparr>)) = x
        \<and> card_organic (treatment_card_of i (t\<lparr>threat_organic := Some x\<rparr>)) = x
        \<and> card_chemical (treatment_card_of i (t\<lparr>threat_chemical := Some x\<rparr>)) = x)
   \<and> guide_rows (e\<lparr>organic_treatment := Some []\<rparr> # es)
       = guide_rows (e\<lparr>organic_treatment := None\<rparr> # es)
   \<and> guide_rows (e\<lparr>chemical_treatment := Some []\<rparr> # es)
       = guide_rows (e\<lparr>chemical_treatment := None\<rparr> # es)
   \<and> treatment_cards (t\<lparr>threat_organic := Some []\<rparr> # ts)
       = treatment_cards (t\<lparr>threat_organic := None\<rparr> # ts)
   \<and> treatment_cards (t\<lparr>threat_chemical := Some []\<rparr> # ts)
       = treatment_cards (t\<lparr>threat_chemical := None\<rparr> # ts)
   \<and> guide_rows diseases
       = map guide_row_of (filter (\<lambda>entry. disease_name entry \<noteq> ''Healthy'') diseases)
   \<and> (disease_name e \<noteq> ''Healthy'' \<longrightarrow> guide_rows (e # es) = guide_row_of e # guide_rows es)
   \<and> (has_guide d \<longrightarrow>
        allDiseasesTreatment (loadAllTreatments d (Resolved diseases) s)
          = GuideTable (guide_rows diseases))
   \<and> treatment_cards tts = map (\<lambda>k. treatment_card_of k (tts ! k)) [0 ..< length tts]
   \<and> treatment_cards (t # ts)
       = treatment_card_of 0 t
           # map (\<lambda>(k, x). treatment_card_of k x) (zip [Suc 0 ..< Suc (length ts)] ts)
   \<and> (has_treatment d \<and> tts \<noteq> [] \<longrightarrow>
        treatmentSummary (renderTopTreatments d tts s) = Some (treatment_cards tts))
   \<and> (regional_data response = Some D \<and> D \<noteq> [] \<and> has_treatment d
        \<and> top_treatments response = Some tts \<and> tts \<noteq> [] \<longrightarrow>
        treatmentSummary (loadRegionalStatistics d lat lon (Resolved response) s)
          = Some (treatment_cards tts))"
proof -
  have guide: "guide_organic (guide_row_of e) = ''No specific organic treatment recorded.''"
    if "organic_treatment e = None \<or> organic_treatment e = Some []"
    using str_or_falsy [OF that] by (simp add: guide_row_of_def)
  have guide': "guide_chemical (guide_row_of e) = ''No specific chemical treatment recorded.''"
    if "chemical_treatment e = None \<or> chemical_treatment e = Some []"
    using str_or_falsy [OF that] by (simp add: guide_row_of_def)
  have card: "card_organic (treatment_card_of i t) = ''No specific organic treatment recorded.''"
    if "threat_organic t = None \<or> threat_organic t = Some []"
    using str_or_falsy [OF that] by (simp add: treatment_card_of_def)
  have card': "card_chemical (treatment_card_of i t) = ''No specific chemical treatment recorded.''"
    if "threat_chemical t = None \<or> threat_chemical t = Some []"
    using str_or_falsy [OF that] by (simp add: treatment_card_of_def)
  have kept: "guide_organic (guide_row_of (e\<lparr>organic_treatment := Some x\<rparr>)) = x
        \<and> guide_chemical (guide_row_of (e\<lparr>chemical_treatment := Some x\<rparr>)) = x
        \<and> card_organic (treatment_card_of i (t\<lparr>threat_organic := Some x\<rparr>)) = x
        \<and> card_chemical (treatment_card_of i (t\<lparr>threat_chemical := Some x\<rparr>)) = x"
    if "x \<noteq> []"
    using that by (simp add: guide_row_of_def treatment_card_of_def str_or_truthy)
  have rows: "guide_rows (e\<lparr>organic_treatment := Some []\<rparr> # es)
       = guide_rows (e\<lparr>organic_treatment := None\<rparr> # es)"
    "guide_rows (e\<lparr>chemical_treatment := Some []\<rparr> # es)
       = guide_rows (e\<lparr>chemical_treatment := None\<rparr> # es)"
    by (simp_all add: guide_row_of_def str_or_def)
  have cards: "treatment_cards (t\<lparr>threat_organic := Some []\<rparr> # ts)
       = treatment_cards (t\<lparr>threat_organic := None\<rparr> # ts)"
    "treatment_cards (t\<lparr>threat_chemical := Some []\<rparr> # ts)
       = treatment_cards (t\<lparr>threat_chemical := None\<rparr> # ts)"
    by (simp_all add: treatment_cards_Cons treatment_card_of_def str_or_def)
  have listed: "guide_rows diseases
       = map guide_row_of (filter (\<lambda>entry. disease_name entry \<noteq> ''Healthy'') diseases)"
    by (rule guide_rows_filter)
  have head: "guide_rows (e # es) = guide_row_of e # guide_rows es"
    if "disease_name e \<noteq> ''Healthy''"
    using that by simp
  have table: "allDiseasesTreatment (loadAllTreatments d (Resolved diseases) s)
          = GuideTable (guide_rows diseases)"
    if "has_guide d"
    using that by (rule loadAllTreatments_table)
  have numbered: "treatment_cards tts
       = map (\<lambda>k. treatment_card_of k (tts ! k)) [0 ..< length tts]"
    by (rule treatment_cards_nth)
  have first: "treatment_cards (t # ts)
       = treatment_card_of 0 t
           # map (\<lambda>(k, x). treatment_card_of k x) (zip [Suc 0 ..< Suc (length ts)] ts)"
    by (rule treatment_cards_Cons)
  have panel: "treatmentSummary (renderTopTreatments d tts s) = Some (treatment_cards tts)"
    if "has_treatment d \<and> tts \<noteq> []"
    using that by (simp add: renderTopTreatments_cards)
  have report: "treatmentSummary (loadRegionalStatistics d lat lon (Resolved response) s)
          = Some (treatment_cards tts)"
    if "regional_data response = Some D \<and> D \<noteq> [] \<and> has_treatment d
        \<and> top_treatments response = Some tts \<and> tts \<noteq> []"
    using that by (auto intro: report_cards)
  from guide guide' card card' kept rows cards listed head table numbered first panel report
  show ?thesis by blast
qed

theorem C10_placeholder_for_falsy_treatment_witness:
  "organic_treatment sample_entry = Some []
   \<and> guide_organic (guide_row_of sample_entry) = ''No specific organic treatment recorded.''
   \<and> threat_organic sample_threat = None
   \<and> card_organic (treatment_card_of 0 sample_threat) = ''No specific organic treatment recorded.''
   \<and> ''Neem oil'' \<noteq> []
   \<and> guide_organic (guide_row_of (sample_entry\<lparr>organic_treatment := Some ''Neem oil''\<rparr>))
       = ''Neem oil''
   \<and> has_guide full_dom
   \<and> allDiseasesTreatment (loadAllTreatments full_dom (Resolved [healthy_entry, sample_entry])
        fresh_page)
       = GuideTable [\<lparr>guide_name = ''Anthracnose'',
                      guide_organic = ''No specific organic treatment recorded.'',
                      guide_chemical = ''No specific chemical treatment recorded.''\<rparr>]
   \<and> has_treatment full_dom
   \<and> treatmentSummary (renderTopTreatments full_dom [sample_threat] fresh_page)
       = Some [\<lparr>card_rank = 1, card_name = ''Anthracnose'', card_count = 4, card_plural = ''s'',
                 card_border = JStr ''#f0ad4e'',
                 card_organic = ''No specific organic treatment recorded.'',
                 card_chemical = ''No specific chemical treatment recorded.''\<rparr>]
   \<and> treatmentSummary reported_page
       = Some [\<lparr>card_rank = 1, card_name = ''Anthracnose'', card_count = 4, card_plural = ''s'',
                 card_border = JStr ''#f0ad4e'',
                 card_organic = ''No specific organic treatment recorded.'',
                 card_chemical = ''No specific chemical treatment recorded.''\<rparr>]"
proof -
  note inst = C10_placeholder_for_falsy_treatment
      [where e = sample_entry and t = sample_threat and i = 0 and x = "''Neem oil''"
         and es = "[]" and ts = "[]" and d = full_dom
         and diseases = "[healthy_entry, sample_entry]"
         and s = "located_page\<lparr>generate_disabled := True, generate_text := ''Analyzing...''\<rparr>"
         and tts = "[sample_threat]" and response = sample_response
         and D = "[(''Anthracnose'', 4), (''Gall Midge'', 2), (''Sooty Mould'', 1)]"
         and lat = "''12.97''" and lon = "''77.59''"]
  note inst' = C10_placeholder_for_falsy_treatment
      [where d = full_dom and diseases = "[healthy_entry, sample_entry]" and s = fresh_page
         and tts = "[sample_threat]"]
  have a: "organic_treatment sample_entry = Some []"
    and b: "threat_organic sample_threat = None"
    and c: "''Neem oil'' \<noteq> []"
    by (simp_all add: sample_entry_def sample_threat_def)
  have els: "has_guide full_dom" "has_treatment full_dom"
    by (simp_all add: full_dom_def)
  have resp: "regional_data sample_response
                = Some [(''Anthracnose'', 4), (''Gall Midge'', 2), (''Sooty Mould'', 1)]"
    "top_treatments sample_response = Some [sample_threat]"
    by (simp_all add: sample_response_def)
  have rows: "guide_rows [healthy_entry, sample_entry]
      = [\<lparr>guide_name = ''Anthracnose'',
           guide_organic = ''No specific organic treatment recorded.'',
           guide_chemical = ''No specific chemical treatment recorded.''\<rparr>]"
    by (simp add: healthy_entry_def sample_entry_def guide_row_of_def str_or_def)
  have cards: "treatment_cards [sample_threat]
      = [\<lparr>card_rank = 1, card_name = ''Anthracnose'', card_count = 4, card_plural = ''s'',
           card_border = JStr ''#f0ad4e'',
           card_organic = ''No specific organic treatment recorded.'',
           card_chemical = ''No specific chemical treatment recorded.''\<rparr>]"
    by (simp add: treatment_cards_def sample_threat_def treatment_card_of_def str_or_def
        js_or_def obj_get_def DISEASE_COLOR_MAP_def)
  have first: "guide_organic (guide_row_of sample_entry) = ''No specific organic treatment recorded.''
     \<and> card_organic (treatment_card_of 0 sample_threat) = ''No specific organic treatment recorded.''
     \<and> guide_organic (guide_row_of (sample_entry\<lparr>organic_treatment := Some ''Neem oil''\<rparr>))
         = ''Neem oil''"
    using inst a b c by blast
  have table: "allDiseasesTreatment (loadAllTreatments full_dom
        (Resolved [healthy_entry, sample_entry]) fresh_page)
       = GuideTable (guide_rows [healthy_entry, sample_entry])"
    using inst' els by blast
  have panel: "treatmentSummary (renderTopTreatments full_dom [sample_threat] fresh_page)
       = Some (treatment_cards [sample_threat])"
    using inst' els by blast
  have "treatmentSummary (loadRegionalStatistics full_dom ''12.97'' ''77.59''
          (Resolved sample_response)
          (located_page\<lparr>generate_disabled := True, generate_text := ''Analyzing...''\<rparr>))
        = Some (treatment_cards [sample_threat])"
    using inst els resp by blast
  moreover have "reportLatitude located_page = ''12.97''" "reportLongitude located_page = ''77.59''"
    by (simp_all add: located_page_def)
  ultimately have report: "treatmentSummary reported_page = Some (treatment_cards [sample_threat])"
    by (simp add: reported_page_def generate_click_def Let_def)
  from a b c els first table panel report show ?thesis
    by (simp only: rows cards) blast
qed

end
